theory Spec2Isabelle
  imports Main "HOL-Library.Word"
begin

unbundle bit_operations_syntax

section \<open>Machine integers, constants and enumerations\<close>

type_synonym u32 = "32 word"
type_synonym u64 = "64 word"

text \<open>
  Modelled from the spec: \<open>SPA_NSEC_PER_SEC\<close> is declared in a header that is not part
  of the sources at hand; the spec gives one second as \<open>10^9\<close> nanoseconds.
\<close>

definition SPA_NSEC_PER_SEC :: u64 where
  "SPA_NSEC_PER_SEC = 1000000000"

text \<open>\<open>INT64_MIN\<close>, read as the 64-bit pattern stored in \<open>position.offset\<close>.\<close>

definition INT64_MIN :: u64 where
  "INT64_MIN = 0x8000000000000000"

text \<open>
  Modelled from the spec: \<open>enum pw_node_state\<close> is declared outside the sources at hand.
  The spec lists the states \<open>CREATING, SUSPENDED, IDLE, RUNNING, ERROR\<close>; the numeric
  order used by the comparisons in \<open>start_node\<close> and \<open>pause_node\<close> puts ERROR below
  CREATING and RUNNING on top.
\<close>

datatype pw_node_state =
    PW_NODE_STATE_ERROR
  | PW_NODE_STATE_CREATING
  | PW_NODE_STATE_SUSPENDED
  | PW_NODE_STATE_IDLE
  | PW_NODE_STATE_RUNNING

fun pw_node_state_val :: "pw_node_state \<Rightarrow> int" where
  "pw_node_state_val PW_NODE_STATE_ERROR = -1"
| "pw_node_state_val PW_NODE_STATE_CREATING = 0"
| "pw_node_state_val PW_NODE_STATE_SUSPENDED = 1"
| "pw_node_state_val PW_NODE_STATE_IDLE = 2"
| "pw_node_state_val PW_NODE_STATE_RUNNING = 3"

text \<open>
  Modelled from the spec: \<open>enum pw_port_state\<close> is declared outside the sources at hand;
  the spec names the port states \<open>CONFIGURE\<close>, \<open>READY\<close> and \<open>PAUSED\<close>.
\<close>

datatype pw_port_state =
    PW_PORT_STATE_ERROR
  | PW_PORT_STATE_INIT
  | PW_PORT_STATE_CONFIGURE
  | PW_PORT_STATE_READY
  | PW_PORT_STATE_PAUSED

text \<open>
  Modelled from the spec: the activation status and command enumerations
  (\<open>PW_NODE_ACTIVATION_*\<close>) are declared outside the sources at hand; the spec lists
  the status values \<open>NOT_TRIGGERED, TRIGGERED, AWAKE, FINISHED\<close> and the commands
  \<open>NONE, START, STOP\<close>.
\<close>

datatype activation_status =
    PW_NODE_ACTIVATION_NOT_TRIGGERED
  | PW_NODE_ACTIVATION_TRIGGERED
  | PW_NODE_ACTIVATION_AWAKE
  | PW_NODE_ACTIVATION_FINISHED

datatype activation_command =
    PW_NODE_ACTIVATION_COMMAND_NONE
  | PW_NODE_ACTIVATION_COMMAND_START
  | PW_NODE_ACTIVATION_COMMAND_STOP

text \<open>\<open>enum spa_io_position_state\<close> of \<open>spa/node/io.h\<close>.\<close>

datatype spa_io_position_state =
    SPA_IO_POSITION_STATE_STOPPED
  | SPA_IO_POSITION_STATE_STARTING
  | SPA_IO_POSITION_STATE_RUNNING

text \<open>The status bits a \<open>process\<close> call returns (spec, section 6).\<close>

definition SPA_STATUS_OK :: int where "SPA_STATUS_OK = 0"
definition SPA_STATUS_HAVE_DATA :: int where "SPA_STATUS_HAVE_DATA = 2"

text \<open>The results of \<open>check_updates\<close>.\<close>

datatype sync_type = SYNC_CHECK | SYNC_START | SYNC_STOP

datatype spa_node_command = SPA_NODE_COMMAND_Start | SPA_NODE_COMMAND_Pause

section \<open>\<open>flp2\<close>: power-of-two floor\<close>

text \<open>
  \<open>flp2\<close> of \<open>node.c\<close>: \<open>x\<close> is overwritten five times, then \<open>x - (x >> 1)\<close> is
  returned; all arithmetic is on \<open>uint32_t\<close>.
\<close>

definition flp2 :: "u32 \<Rightarrow> u32" where
  "flp2 x0 =
     (let x1 = x0 OR drop_bit 1 x0;
          x2 = x1 OR drop_bit 2 x1;
          x3 = x2 OR drop_bit 4 x2;
          x4 = x3 OR drop_bit 8 x3;
          x5 = x4 OR drop_bit 16 x4
      in x5 - drop_bit 1 x5)"

text \<open>The value of \<open>x\<close> after the five or-shift assignments (a proof device).\<close>

definition smear :: "u32 \<Rightarrow> u32" where
  "smear x0 =
     (let x1 = x0 OR drop_bit 1 x0;
          x2 = x1 OR drop_bit 2 x1;
          x3 = x2 OR drop_bit 4 x2;
          x4 = x3 OR drop_bit 8 x3
      in x4 OR drop_bit 16 x4)"

section \<open>The data model\<close>

text \<open>
  The bar and video parts of a segment hold floating-point fields and padding; the
  scheduler only zeroes and copies them, so each stands for its contents as a whole
  (0 for the zeroed structure). The rate of a segment is a \<open>double\<close>, kept as its 64-bit
  pattern.
\<close>

datatype spa_io_segment_bar = SPA_IO_SEGMENT_BAR nat
datatype spa_io_segment_video = SPA_IO_SEGMENT_VIDEO nat
type_synonym c_double = u64

definition DOUBLE_1_0 :: c_double where
  "DOUBLE_1_0 = 0x3FF0000000000000"

record spa_io_segment =
  seg_version :: u32
  seg_flags :: u32
  seg_start :: u64
  seg_duration :: u64
  seg_rate :: c_double
  seg_position :: u64
  seg_bar :: spa_io_segment_bar
  seg_video :: spa_io_segment_video

text \<open>
  \<open>struct spa_io_position\<close> with the fields of its embedded clock that the scheduler
  touches. \<open>offset\<close> is an \<open>int64_t\<close>; it is only assigned, compared with
  \<open>INT64_MIN\<close> and added to, so its 64-bit pattern is kept.
\<close>

record spa_io_position =
  clock_id :: u32
  clock_rate_num :: u32
  clock_rate_denom :: u32
  clock_position :: u64
  clock_duration :: u64
  pos_offset :: u64
  pos_state :: spa_io_position_state
  n_segments :: u32
  segments :: "spa_io_segment list"

record pw_node_activation_state =
  st_status :: int
  required :: u32
  pending :: u32

text \<open>
  The activation record. \<open>state0\<close> is \<open>state[0]\<close>; \<open>cpu_load\<close> (three floats written by
  \<open>calculate_stats\<close> only) is left out.
\<close>

record pw_node_activation =
  a_status :: activation_status
  pending_sync :: bool
  pending_new_pos :: bool
  state0 :: pw_node_activation_state
  a_command :: activation_command
  reposition_owner :: u32
  signal_time :: u64
  awake_time :: u64
  finish_time :: u64
  prev_signal_time :: u64
  sync_timeout :: u64
  sync_left :: u64
  xrun_count :: u32
  xrun_time :: u64
  xrun_delay :: u64
  max_delay :: u64
  segment_owner0 :: u32
  segment_owner1 :: u32
  a_position :: spa_io_position
  a_reposition :: spa_io_segment
  a_segment :: spa_io_segment

text \<open>
  Objects live in a store and are named by natural numbers. Every node owns one
  activation record, so an activation is named by the id of its node. A
  \<open>pw_node_target\<close> names the activation it signals, the node (or none, for a remote
  peer), the signal function and its argument.
\<close>

datatype signal_func = SIGNAL_process_node | SIGNAL_link_signal_func

record pw_node_target =
  t_activation :: nat
  t_node :: "nat option"
  t_signal :: signal_func
  t_data :: nat

text \<open>
  The elements a \<open>target_list\<close> can hold: the \<open>rt.target\<close> or the \<open>rt.driver_target\<close>
  member of a node, or the \<open>target\<close> member of a remote-node link.
\<close>

datatype target_ref = RT_TARGET nat | RT_DRIVER_TARGET nat | LINK_TARGET nat

record pw_port =
  port_id :: u32
  port_state :: pw_port_state
  port_links :: "nat list"

record pw_node =
  info_id :: u32
  info_state :: pw_node_state
  info_error :: "string option"
  node_name :: "string option"
  properties :: "string \<rightharpoonup> string"
  active :: bool
  driver :: bool
  master :: bool
  want_driver :: bool
  registered :: bool
  exported :: bool
  pause_on_idle :: bool
  quantum_size :: u32
  n_ready_output_links :: u32
  n_used_output_links :: u32
  n_ready_input_links :: u32
  n_used_input_links :: u32
  input_ports :: "pw_port list"
  output_ports :: "pw_port list"
  driver_node :: nat
  source_loop :: bool
  rt_target :: pw_node_target
  rt_driver_target :: pw_node_target
  rt_target_list :: "target_ref list"
  rt_input_mix :: "nat list"
  rt_output_mix :: "nat list"

text \<open>\<open>struct link\<close> of \<open>remote-node.c\<close>: a peer activation and the fd that wakes it.\<close>

record link =
  link_node_id :: u32
  link_target :: pw_node_target
  link_signalfd :: int

text \<open>What the code does to its collaborators, in the order it does it.\<close>

datatype event =
    EV_send_command nat spa_node_command
  | EV_link_activate nat
  | EV_link_deactivate nat
  | EV_port_set_param_Format_NULL u32
  | EV_log_warn string
  | EV_log_error string
  | EV_dump_state nat u32 u32
  | EV_state_changed nat pw_node_state pw_node_state
  | EV_recalc_graph
  | EV_process_mix nat nat
  | EV_process nat
  | EV_write_fd int

text \<open>
  The store. \<open>ticks\<close> counts the readings of the monotonic clock so far; \<open>trace\<close> is the
  list of events, oldest first.
\<close>

record world =
  nodes :: "nat \<Rightarrow> pw_node"
  acts :: "nat \<Rightarrow> pw_node_activation"
  links :: "nat \<Rightarrow> link"
  driver_list :: "nat list"
  ticks :: nat
  trace :: "event list"

text \<open>
  The collaborators whose code is outside the scheduler: the monotonic clock (its
  \<open>i\<close>-th reading, in nanoseconds), \<open>spa_node_process\<close> (the status it returns for a
  node, which may differ from call to call), \<open>spa_node_send_command\<close>,
  \<open>pw_port_set_param(p, Format, 0, NULL)\<close> (its result and what it leaves of the port),
  \<open>pw_properties_parse_bool\<close> and \<open>sscanf(str, "%u/%u", ...)\<close>, which gives both
  numbers exactly when it returns 2.
\<close>

record env =
  e_clock :: "nat \<Rightarrow> u64"
  e_process :: "nat \<Rightarrow> nat \<Rightarrow> int"
  e_send_command :: "nat \<Rightarrow> spa_node_command \<Rightarrow> int"
  e_port_clear_format :: "pw_port \<Rightarrow> int \<times> pw_port"
  e_parse_bool :: "string \<Rightarrow> bool"
  e_scan_fraction :: "string \<Rightarrow> (u32 \<times> u32) option"

definition emit :: "event \<Rightarrow> world \<Rightarrow> world" where
  "emit e s = s\<lparr>trace := trace s @ [e]\<rparr>"

definition node_upd :: "nat \<Rightarrow> (pw_node \<Rightarrow> pw_node) \<Rightarrow> world \<Rightarrow> world" where
  "node_upd n f s = s\<lparr>nodes := (nodes s)(n := f (nodes s n))\<rparr>"

definition act_upd :: "nat \<Rightarrow> (pw_node_activation \<Rightarrow> pw_node_activation) \<Rightarrow> world \<Rightarrow> world" where
  "act_upd a f s = s\<lparr>acts := (acts s)(a := f (acts s a))\<rparr>"

text \<open>Reading the clock: the next reading is returned and the counter advances.\<close>

definition clock_gettime :: "env \<Rightarrow> world \<Rightarrow> u64 \<times> world" where
  "clock_gettime env s = (e_clock env (ticks s), s\<lparr>ticks := Suc (ticks s)\<rparr>)"

text \<open>The target structure a list element stands for.\<close>

fun target_of :: "world \<Rightarrow> target_ref \<Rightarrow> pw_node_target" where
  "target_of s (RT_TARGET n) = rt_target (nodes s n)"
| "target_of s (RT_DRIVER_TARGET n) = rt_driver_target (nodes s n)"
| "target_of s (LINK_TARGET l) = link_target (links s l)"

section \<open>Attaching a node to its driver\<close>

text \<open>
  \<open>spa_list_remove\<close> unlinks an element from whichever list holds it; an element is a
  member of one target structure, so it is in one list at most.
\<close>

definition list_remove :: "target_ref \<Rightarrow> world \<Rightarrow> world" where
  "list_remove r s =
     s\<lparr>nodes := (\<lambda>n. (nodes s n)\<lparr>rt_target_list := remove1 r (rt_target_list (nodes s n))\<rparr>)\<rparr>"

definition list_append :: "nat \<Rightarrow> target_ref \<Rightarrow> world \<Rightarrow> world" where
  "list_append n r s = node_upd n (\<lambda>x. x\<lparr>rt_target_list := rt_target_list x @ [r]\<rparr>) s"

definition inc_required :: "nat \<Rightarrow> world \<Rightarrow> world" where
  "inc_required a s =
     act_upd a (\<lambda>x. x\<lparr>state0 := (state0 x)\<lparr>required := required (state0 x) + 1\<rparr>\<rparr>) s"

definition dec_required :: "nat \<Rightarrow> world \<Rightarrow> world" where
  "dec_required a s =
     act_upd a (\<lambda>x. x\<lparr>state0 := (state0 x)\<lparr>required := required (state0 x) - 1\<rparr>\<rparr>) s"

definition add_node :: "nat \<Rightarrow> nat \<Rightarrow> world \<Rightarrow> world" where
  "add_node this drv s =
     (if exported (nodes s this) then s
      else
        let s1 = node_upd this (\<lambda>x. x\<lparr>rt_driver_target :=
                   (rt_driver_target x)\<lparr>t_activation := drv, t_node := Some drv, t_data := drv\<rparr>\<rparr>) s;
            s2 = list_append this (RT_DRIVER_TARGET this) s1;
            s3 = inc_required (t_activation (rt_driver_target (nodes s2 this))) s2;
            s4 = list_append drv (RT_TARGET this) s3;
            s5 = inc_required this s4
        in s5)"

definition remove_node :: "nat \<Rightarrow> world \<Rightarrow> world" where
  "remove_node this s =
     (if exported (nodes s this) then s
      else
        let s1 = list_remove (RT_DRIVER_TARGET this) s;
            s2 = dec_required (t_activation (rt_driver_target (nodes s1 this))) s1;
            s3 = list_remove (RT_TARGET this) s2;
            s4 = dec_required this s3
        in s4)"

text \<open>
  \<open>do_node_remove\<close> and \<open>do_node_add\<close> run in the data loop through a blocking
  \<open>pw_loop_invoke\<close>; the caller waits for them, so they are applied in place.
\<close>

definition do_node_remove :: "nat \<Rightarrow> world \<Rightarrow> world" where
  "do_node_remove this s =
     (if source_loop (nodes s this)
      then remove_node this (node_upd this (\<lambda>x. x\<lparr>source_loop := False\<rparr>) s)
      else s)"

definition do_node_add :: "nat \<Rightarrow> world \<Rightarrow> world" where
  "do_node_add this s =
     (if \<not> source_loop (nodes s this)
      then add_node this (driver_node (nodes s this))
             (node_upd this (\<lambda>x. x\<lparr>source_loop := True\<rparr>) s)
      else s)"

definition do_move_nodes :: "nat \<Rightarrow> nat \<Rightarrow> world \<Rightarrow> world" where
  "do_move_nodes this drv s =
     (if source_loop (nodes s this) then add_node this drv (remove_node this s) else s)"

section \<open>Node state changes on the main loop\<close>

text \<open>\<open>pw_link_activate\<close> and \<open>pw_link_deactivate\<close> are outside the sources; the calls are recorded.\<close>

definition node_deactivate :: "nat \<Rightarrow> world \<Rightarrow> world" where
  "node_deactivate this s =
     (let ls = concat (map port_links (input_ports (nodes s this)))
             @ concat (map port_links (output_ports (nodes s this)))
      in s\<lparr>trace := trace s @ map EV_link_deactivate ls\<rparr>)"

definition node_activate :: "nat \<Rightarrow> world \<Rightarrow> world" where
  "node_activate this s =
     (let ls = concat (map port_links (input_ports (nodes s this)))
             @ concat (map port_links (output_ports (nodes s this)))
      in s\<lparr>trace := trace s @ map EV_link_activate ls\<rparr>)"

definition pause_node :: "env \<Rightarrow> nat \<Rightarrow> world \<Rightarrow> int \<times> world" where
  "pause_node env this s =
     (if pw_node_state_val (info_state (nodes s this)) \<le> pw_node_state_val PW_NODE_STATE_IDLE
         \<and> pause_on_idle (nodes s this)
      then (0, s)
      else
        let s1 = node_deactivate this s;
            s2 = do_node_remove this s1;
            res = e_send_command env this SPA_NODE_COMMAND_Pause;
            s3 = emit (EV_send_command this SPA_NODE_COMMAND_Pause) s2
        in (res, s3))"

definition start_node :: "env \<Rightarrow> nat \<Rightarrow> world \<Rightarrow> int \<times> world" where
  "start_node env this s =
     (let n = nodes s this in
      if pw_node_state_val (info_state n) \<ge> pw_node_state_val PW_NODE_STATE_RUNNING
      then (0, s)
      else if n_ready_output_links n \<noteq> n_used_output_links n
              \<or> n_ready_input_links n \<noteq> n_used_input_links n
      then (0, s)
      else
        let res = e_send_command env this SPA_NODE_COMMAND_Start;
            s1 = emit (EV_send_command this SPA_NODE_COMMAND_Start) s;
            s2 = (if res < 0 then emit (EV_log_error ''start node error'') s1 else s1)
        in (res, s2))"

definition node_update_state :: "nat \<Rightarrow> pw_node_state \<Rightarrow> string option \<Rightarrow> world \<Rightarrow> world" where
  "node_update_state this st err s =
     (let old = info_state (nodes s this) in
      if old = st then s
      else
        let s1 = node_upd this (\<lambda>x. x\<lparr>info_error := err, info_state := st\<rparr>) s;
            s2 = (if st = PW_NODE_STATE_RUNNING then do_node_add this s1 else s1)
        in emit (EV_state_changed this old st) s2)"

text \<open>
  One turn of the port loops of \<open>suspend_node\<close>: the format is cleared, a failure is
  logged, and the port state is overwritten whatever the call did.
\<close>

definition suspend_port :: "env \<Rightarrow> pw_port \<Rightarrow> int \<times> pw_port \<times> event list" where
  "suspend_port env p =
     (let (res, p') = e_port_clear_format env p;
          evs = EV_port_set_param_Format_NULL (port_id p)
                # (if res < 0 then [EV_log_warn ''error unset format''] else [])
      in (res, p'\<lparr>port_state := PW_PORT_STATE_CONFIGURE\<rparr>, evs))"

fun suspend_ports :: "env \<Rightarrow> int \<Rightarrow> pw_port list \<Rightarrow> int \<times> pw_port list \<times> event list" where
  "suspend_ports env res [] = (res, [], [])"
| "suspend_ports env res (p # ps) =
     (let (res1, p', evs1) = suspend_port env p;
          (res2, ps', evs2) = suspend_ports env res1 ps
      in (res2, p' # ps', evs1 @ evs2))"

definition suspend_node :: "env \<Rightarrow> nat \<Rightarrow> world \<Rightarrow> int \<times> world" where
  "suspend_node env this s =
     (let (_, s1) = pause_node env this s;
          (res1, ins, evs1) = suspend_ports env 0 (input_ports (nodes s1 this));
          s2 = (node_upd this (\<lambda>x. x\<lparr>input_ports := ins\<rparr>) s1)\<lparr>trace := trace s1 @ evs1\<rparr>;
          (res2, outs, evs2) = suspend_ports env res1 (output_ports (nodes s2 this));
          s3 = (node_upd this (\<lambda>x. x\<lparr>output_ports := outs\<rparr>) s2)\<lparr>trace := trace s2 @ evs2\<rparr>;
          s4 = node_update_state this PW_NODE_STATE_SUSPENDED None s3
      in (res2, s4))"

section \<open>Node properties\<close>

text \<open>
  Modelled from the spec: the property keys are declared outside the sources at hand;
  the spec names them \<open>NODE_NAME\<close>, \<open>NODE_PAUSE_ON_IDLE\<close>, \<open>NODE_DRIVER\<close>,
  \<open>NODE_ALWAYS_PROCESS\<close> and \<open>NODE_LATENCY\<close>.
\<close>

definition PW_KEY_NODE_NAME :: string where "PW_KEY_NODE_NAME = ''node.name''"
definition PW_KEY_NODE_PAUSE_ON_IDLE :: string where "PW_KEY_NODE_PAUSE_ON_IDLE = ''node.pause-on-idle''"
definition PW_KEY_NODE_DRIVER :: string where "PW_KEY_NODE_DRIVER = ''node.driver''"
definition PW_KEY_NODE_ALWAYS_PROCESS :: string where "PW_KEY_NODE_ALWAYS_PROCESS = ''node.always-process''"
definition PW_KEY_NODE_LATENCY :: string where "PW_KEY_NODE_LATENCY = ''node.latency''"

text \<open>
  The latency branch of \<open>check_properties\<close>: the new quantum and whether a recalculation
  is due. \<open>num * 48000 / denom\<close> is computed on \<open>uint32_t\<close>.
\<close>

definition check_latency :: "env \<Rightarrow> pw_node \<Rightarrow> pw_node \<times> bool" where
  "check_latency env n =
     (case properties n PW_KEY_NODE_LATENCY of
        None \<Rightarrow> (n, False)
      | Some str \<Rightarrow>
          (case e_scan_fraction env str of
             None \<Rightarrow> (n, False)
           | Some (num, denom) \<Rightarrow>
               if denom \<noteq> 0 then
                 let q = flp2 (num * 48000 div denom) in
                 if q \<noteq> quantum_size n then (n\<lparr>quantum_size := q\<rparr>, active n)
                 else (n, False)
               else (n, False)))"

text \<open>
  The branches of \<open>check_properties\<close> for the name, pause-on-idle and always-process
  keys, and the value of its local \<open>driver\<close>.
\<close>

definition check_flags :: "env \<Rightarrow> pw_node \<Rightarrow> pw_node" where
  "check_flags env n0 =
     (let n1 = (case properties n0 PW_KEY_NODE_NAME of
                  Some str \<Rightarrow> n0\<lparr>node_name := Some str\<rparr>
                | None \<Rightarrow> n0);
          n2 = (case properties n1 PW_KEY_NODE_PAUSE_ON_IDLE of
                  Some str \<Rightarrow> n1\<lparr>pause_on_idle := e_parse_bool env str\<rparr>
                | None \<Rightarrow> n1\<lparr>pause_on_idle := True\<rparr>)
      in (case properties n2 PW_KEY_NODE_ALWAYS_PROCESS of
            Some str \<Rightarrow> n2\<lparr>want_driver := e_parse_bool env str\<rparr>
          | None \<Rightarrow> n2\<lparr>want_driver := False\<rparr>))"

definition check_driver :: "env \<Rightarrow> pw_node \<Rightarrow> bool" where
  "check_driver env n =
     (case properties n PW_KEY_NODE_DRIVER of
        Some str \<Rightarrow> e_parse_bool env str
      | None \<Rightarrow> False)"

definition check_properties :: "env \<Rightarrow> nat \<Rightarrow> world \<Rightarrow> world" where
  "check_properties env this s =
     (let n3 = check_flags env (nodes s this);
          drv = check_driver env (nodes s this);
          dl = (if driver n3 \<noteq> drv \<and> registered n3
                then (if drv then driver_list s @ [this] else remove1 this (driver_list s))
                else driver_list s);
          n4 = (if driver n3 \<noteq> drv then n3\<lparr>driver := drv\<rparr> else n3);
          r = check_latency env n4;
          s1 = s\<lparr>nodes := (nodes s)(this := fst r), driver_list := dl\<rparr>
      in if snd r then emit EV_recalc_graph s1 else s1)"

section \<open>The cycle protocol\<close>

datatype fault = OUT_OF_FUEL | DIVISION_BY_ZERO | OUT_OF_BOUNDS

text \<open>
  Modelled from the spec: \<open>pw_node_activation_state_dec\<close> and
  \<open>pw_node_activation_state_reset\<close> are macros declared outside the sources at hand. By
  the spec the first decrements \<open>pending\<close> atomically and tells whether that decrement
  reached zero; the second resets \<open>pending\<close> to \<open>required\<close>.
\<close>

definition pw_node_activation_state_dec ::
    "pw_node_activation_state \<Rightarrow> bool \<times> pw_node_activation_state" where
  "pw_node_activation_state_dec st =
     (pending st - 1 = 0, st\<lparr>pending := pending st - 1\<rparr>)"

definition pw_node_activation_state_reset ::
    "pw_node_activation_state \<Rightarrow> pw_node_activation_state" where
  "pw_node_activation_state_reset st = st\<lparr>pending := required st\<rparr>"

text \<open>
  The quotient both \<open>check_updates\<close> and \<open>do_reposition\<close> store in \<open>sync_left\<close>:
  \<open>sync_timeout / ((clock.duration * SPA_NSEC_PER_SEC) / clock.rate.denom)\<close> on 64-bit
  unsigned integers. A zero divisor traps.
\<close>

definition sync_cycles :: "pw_node_activation \<Rightarrow> fault + u64" where
  "sync_cycles a =
     (let p = a_position a in
      if clock_rate_denom p = 0 then Inl DIVISION_BY_ZERO
      else
        let cycle = (clock_duration p * SPA_NSEC_PER_SEC) div ucast (clock_rate_denom p) in
        if cycle = 0 then Inl DIVISION_BY_ZERO
        else Inr (sync_timeout a div cycle))"

definition set_pos_state :: "spa_io_position_state \<Rightarrow> pw_node_activation \<Rightarrow> pw_node_activation" where
  "set_pos_state st a = a\<lparr>a_position := (a_position a)\<lparr>pos_state := st\<rparr>\<rparr>"

text \<open>
  \<open>check_updates\<close> works on \<open>node->rt.activation\<close> only. The two \<open>ATOMIC_XCHG\<close> return
  the old value and leave \<open>NONE\<close> and \<open>0\<close>. The result carries the value written to
  \<open>*reposition_owner\<close>.
\<close>

definition check_updates ::
    "pw_node_activation \<Rightarrow> fault + (sync_type \<times> u32 \<times> pw_node_activation)" where
  "check_updates a0 =
     (let a1 = (if pos_offset (a_position a0) = INT64_MIN
                then a0\<lparr>a_position := (a_position a0)\<lparr>pos_offset := clock_position (a_position a0)\<rparr>\<rparr>
                else a0);
          command = a_command a1;
          a2 = a1\<lparr>a_command := PW_NODE_ACTIVATION_COMMAND_NONE\<rparr>;
          owner = reposition_owner a2;
          a3 = a2\<lparr>reposition_owner := 0\<rparr>;
          fin = (\<lambda>res a. Inr (if owner \<noteq> 0 then SYNC_START else res, owner, a))
      in case command of
           PW_NODE_ACTIVATION_COMMAND_NONE \<Rightarrow> fin SYNC_CHECK a3
         | PW_NODE_ACTIVATION_COMMAND_STOP \<Rightarrow>
             fin SYNC_STOP (set_pos_state SPA_IO_POSITION_STATE_STOPPED a3)
         | PW_NODE_ACTIVATION_COMMAND_START \<Rightarrow>
             (let a4 = set_pos_state SPA_IO_POSITION_STATE_STARTING a3 in
              case sync_cycles a4 of
                Inl f \<Rightarrow> Inl f
              | Inr q \<Rightarrow> fin SYNC_START (a4\<lparr>sync_left := q\<rparr>)))"

text \<open>
  \<open>do_reposition\<close>: \<open>a\<close> is the driver's activation, \<open>src\<close> the \<open>reposition\<close> segment of
  the node that owns the reposition.
\<close>

definition do_reposition :: "pw_node_activation \<Rightarrow> spa_io_segment \<Rightarrow> fault + pw_node_activation" where
  "do_reposition a src =
     (let p = a_position a;
          dst = (if seg_start src = 0
                 then src\<lparr>seg_start := clock_position p - pos_offset p\<rparr>
                 else src);
          a1 = a\<lparr>a_position := p\<lparr>segments := (segments p)[0 := dst]\<rparr>\<rparr>
      in case pos_state p of
           SPA_IO_POSITION_STATE_RUNNING \<Rightarrow>
             (let a2 = set_pos_state SPA_IO_POSITION_STATE_STARTING a1 in
              case sync_cycles a2 of
                Inl f \<Rightarrow> Inl f
              | Inr q \<Rightarrow> Inr (a2\<lparr>sync_left := q\<rparr>))
         | _ \<Rightarrow> Inr a1)"

text \<open>\<open>dump_states\<close> logs one warning for every target of the driver that has a node.\<close>

definition dump_states :: "nat \<Rightarrow> world \<Rightarrow> world" where
  "dump_states drv s =
     s\<lparr>trace := trace s @ concat (map (\<lambda>r.
          let t = target_of s r; a = acts s (t_activation t) in
          case t_node t of
            None \<Rightarrow> []
          | Some n \<Rightarrow> [EV_dump_state n (pending (state0 a)) (required (state0 a))])
        (rt_target_list (nodes s drv)))\<rparr>"

definition update_position :: "nat \<Rightarrow> bool \<Rightarrow> world \<Rightarrow> world" where
  "update_position node all_ready s =
     (let s3 =
        (if pos_state (a_position (acts s node)) = SPA_IO_POSITION_STATE_STARTING then
           let s1 = (if \<not> all_ready
                     then act_upd node (\<lambda>a. a\<lparr>sync_left := sync_left a - 1\<rparr>) s
                     else s);
               timeout = (\<not> all_ready \<and> sync_left (acts s1 node) = 0);
               s2 = (if timeout
                     then dump_states node (emit (EV_log_warn ''sync timeout, going to RUNNING'') s1)
                     else s1)
           in if timeout \<or> all_ready
              then act_upd node (set_pos_state SPA_IO_POSITION_STATE_RUNNING) s2
              else s2
         else s)
      in if pos_state (a_position (acts s3 node)) \<noteq> SPA_IO_POSITION_STATE_RUNNING
         then act_upd node (\<lambda>a. a\<lparr>a_position := (a_position a)\<lparr>pos_offset :=
                pos_offset (a_position a) + clock_duration (a_position a)\<rparr>\<rparr>) s3
         else s3)"

definition process_mixes :: "nat \<Rightarrow> nat list \<Rightarrow> world \<Rightarrow> world" where
  "process_mixes this ps s = s\<lparr>trace := trace s @ map (EV_process_mix this) ps\<rparr>"

text \<open>
  \<open>link_signal_func\<close> of \<open>remote-node.c\<close>: the peer's activation is marked and the
  link's fd is written.
\<close>

definition link_signal_func :: "env \<Rightarrow> nat \<Rightarrow> world \<Rightarrow> world" where
  "link_signal_func env l s =
     (let (nsec, s1) = clock_gettime env s;
          s2 = act_upd (t_activation (link_target (links s1 l)))
                 (\<lambda>a. a\<lparr>a_status := PW_NODE_ACTIVATION_TRIGGERED, signal_time := nsec\<rparr>) s1
      in emit (EV_write_fd (link_signalfd (links s2 l))) s2)"

text \<open>
  \<open>process_node\<close> up to the return of \<open>spa_node_process\<close> and of the output mixers:
  the status and the store.
\<close>

definition process_node_run :: "env \<Rightarrow> nat \<Rightarrow> world \<Rightarrow> int \<times> world" where
  "process_node_run env this s =
     (let (t1, s1) = clock_gettime env s;
          s2 = act_upd this (\<lambda>a. a\<lparr>a_status := PW_NODE_ACTIVATION_AWAKE, awake_time := t1,
                 pending_sync := False, pending_new_pos := False\<rparr>) s1;
          s3 = process_mixes this (rt_input_mix (nodes s2 this)) s2;
          status = e_process env this (ticks s3);
          s4 = act_upd this (\<lambda>a. a\<lparr>state0 := (state0 a)\<lparr>st_status := status\<rparr>\<rparr>)
                 (emit (EV_process this) s3);
          s5 = (if status AND SPA_STATUS_HAVE_DATA \<noteq> 0
                then process_mixes this (rt_output_mix (nodes s4 this)) s4 else s4)
      in (status, s5))"

text \<open>The branch of \<open>process_node\<close> taken by a driver that is not exported.\<close>

definition process_node_completed :: "env \<Rightarrow> nat \<Rightarrow> world \<Rightarrow> world" where
  "process_node_completed env this s =
     (let (t2, s1) = clock_gettime env s
      in act_upd this (\<lambda>a. a\<lparr>a_status := PW_NODE_ACTIVATION_FINISHED,
           signal_time := finish_time a, finish_time := t2\<rparr>) s1)"

text \<open>The head of \<open>resume_node\<close>: the clock is read and the node marked finished.\<close>

definition resume_node_finish :: "env \<Rightarrow> nat \<Rightarrow> world \<Rightarrow> u64 \<times> world" where
  "resume_node_finish env this s =
     (let (nsec, s1) = clock_gettime env s
      in (nsec, act_upd this (\<lambda>a. a\<lparr>a_status := PW_NODE_ACTIVATION_FINISHED,
                  finish_time := nsec\<rparr>) s1))"

text \<open>The decrement of one target's \<open>state[0].pending\<close> in the loop of \<open>resume_node\<close>.\<close>

definition target_dec :: "pw_node_target \<Rightarrow> world \<Rightarrow> bool \<times> world" where
  "target_dec t s =
     (let (zero, st) = pw_node_activation_state_dec (state0 (acts s (t_activation t)))
      in (zero, act_upd (t_activation t) (\<lambda>a. a\<lparr>state0 := st\<rparr>) s))"

text \<open>The two writes that precede \<open>t->signal(t->data)\<close>.\<close>

definition target_trigger :: "pw_node_target \<Rightarrow> u64 \<Rightarrow> world \<Rightarrow> world" where
  "target_trigger t nsec s =
     act_upd (t_activation t) (\<lambda>a. a\<lparr>a_status := PW_NODE_ACTIVATION_TRIGGERED,
       signal_time := nsec\<rparr>) s"

text \<open>
  One turn of the loop of \<open>resume_node\<close> up to the call of \<open>signal\<close>: the decrement
  and, when it reached zero, the two writes. The flag tells whether \<open>signal\<close> is due.
\<close>

definition target_dec_trigger :: "pw_node_target \<Rightarrow> u64 \<Rightarrow> world \<Rightarrow> bool \<times> world" where
  "target_dec_trigger t nsec s =
     (case target_dec t s of (zero, s1) \<Rightarrow>
        (zero, if zero then target_trigger t nsec s1 else s1))"

text \<open>
  \<open>process_node\<close>, \<open>resume_node\<close> and the loop of \<open>resume_node\<close> over the target list.
  A local target is signalled by calling \<open>process_node\<close> in place, so the three
  call each other; the first argument bounds the depth of these calls.
\<close>

fun process_node :: "nat \<Rightarrow> env \<Rightarrow> nat \<Rightarrow> world \<Rightarrow> fault + world"
  and resume_node :: "nat \<Rightarrow> env \<Rightarrow> nat \<Rightarrow> world \<Rightarrow> fault + world"
  and resume_targets :: "nat \<Rightarrow> env \<Rightarrow> u64 \<Rightarrow> target_ref list \<Rightarrow> world \<Rightarrow> fault + world"
where
  "process_node 0 env this s = Inl OUT_OF_FUEL"
| "process_node (Suc fuel) env this s =
     (case process_node_run env this s of (status, s1) \<Rightarrow>
        if this = driver_node (nodes s1 this) \<and> \<not> exported (nodes s1 this)
        then Inr (process_node_completed env this s1)
        else if status = SPA_STATUS_OK then Inr s1
        else resume_node fuel env this s1)"
| "resume_node fuel env this s =
     (case resume_node_finish env this s of (nsec, s1) \<Rightarrow>
        resume_targets fuel env nsec (rt_target_list (nodes s1 this)) s1)"
| "resume_targets fuel env nsec [] s = Inr s"
| "resume_targets fuel env nsec (r # rs) s =
     (case target_dec_trigger (target_of s r) nsec s of (zero, s1) \<Rightarrow>
        if zero then
          (case (case t_signal (target_of s r) of
                   SIGNAL_process_node \<Rightarrow> process_node fuel env (t_data (target_of s r)) s1
                 | SIGNAL_link_signal_func \<Rightarrow>
                     Inr (link_signal_func env (t_data (target_of s r)) s1)) of
             Inl f \<Rightarrow> Inl f
           | Inr s2 \<Rightarrow> resume_targets fuel env nsec rs s2)
        else resume_targets fuel env nsec rs s1)"

text \<open>
  Several predecessors of one target in one cycle. Their decrements are atomic, so
  they take effect one after the other; the list gives that order, each predecessor
  with the time it read in its \<open>resume_node\<close>. Every predecessor runs the turn of the
  loop for this target; those for which \<open>signal\<close> is due are returned.
\<close>

fun predecessors_dec ::
    "pw_node_target \<Rightarrow> (nat \<times> u64) list \<Rightarrow> world \<Rightarrow> nat list \<times> world" where
  "predecessors_dec t [] s = ([], s)"
| "predecessors_dec t ((p, nsec) # ps) s =
     (case target_dec_trigger t nsec s of (zero, s1) \<Rightarrow>
        (case predecessors_dec t ps s1 of (sig, s2) \<Rightarrow>
           ((if zero then [p] else []) @ sig, s2)))"

text \<open>\<open>t->signal(t->data)\<close> for either signal function.\<close>

definition signal_target :: "nat \<Rightarrow> env \<Rightarrow> pw_node_target \<Rightarrow> world \<Rightarrow> fault + world" where
  "signal_target fuel env t s =
     (case t_signal t of
        SIGNAL_process_node \<Rightarrow> process_node fuel env (t_data t) s
      | SIGNAL_link_signal_func \<Rightarrow> Inr (link_signal_func env (t_data t) s))"

definition set_seg0 :: "(spa_io_segment \<Rightarrow> spa_io_segment) \<Rightarrow> pw_node_activation \<Rightarrow> pw_node_activation" where
  "set_seg0 f a =
     a\<lparr>a_position := (a_position a)\<lparr>segments :=
          (segments (a_position a))[0 := f (segments (a_position a) ! 0)]\<rparr>\<rparr>"

text \<open>
  One turn of the loop of \<open>node_ready\<close> over the driver's target list. The locals
  \<open>reposition_node\<close> and \<open>all_ready\<close> travel with the store.
\<close>

definition node_ready_target ::
    "nat \<Rightarrow> u32 \<Rightarrow> u32 \<Rightarrow> u32 \<Rightarrow> bool \<Rightarrow> bool \<Rightarrow> target_ref
      \<Rightarrow> nat option \<times> bool \<times> world \<Rightarrow> nat option \<times> bool \<times> world" where
  "node_ready_target node rowner owner0 owner1 update_sync target_sync r acc =
     (case acc of (reposition_node, all_ready, s) \<Rightarrow>
        let t = target_of s r;
            ta = t_activation t;
            s1 = act_upd ta (\<lambda>a. a\<lparr>a_status := PW_NODE_ACTIVATION_NOT_TRIGGERED,
                   state0 := pw_node_activation_state_reset (state0 a)\<rparr>) s;
            (rn, s4) =
              (case t_node t of
                 None \<Rightarrow> (reposition_node, s1)
               | Some tn \<Rightarrow>
                   let id = info_id (nodes s1 tn);
                       s2 = (if id = owner0
                             then act_upd node (set_seg0 (\<lambda>g. g\<lparr>seg_bar := seg_bar (a_segment (acts s1 ta))\<rparr>)) s1
                             else s1);
                       s3 = (if id = owner1
                             then act_upd node (set_seg0 (\<lambda>g. g\<lparr>seg_video := seg_video (a_segment (acts s2 ta))\<rparr>)) s2
                             else s2)
                   in (if id = rowner then Some tn else reposition_node, s3))
        in if update_sync
           then (rn, all_ready,
                 act_upd ta (\<lambda>a. a\<lparr>pending_sync := target_sync, pending_new_pos := target_sync\<rparr>) s4)
           else (rn, all_ready \<and> \<not> pending_sync (acts s4 ta), s4))"

text \<open>The block of \<open>node_ready\<close> that runs when the node is its own driver.\<close>

definition node_ready_driver :: "nat \<Rightarrow> env \<Rightarrow> nat \<Rightarrow> world \<Rightarrow> fault + world" where
  "node_ready_driver fuel env node s =
     (case (if pending (state0 (acts s node)) \<noteq> 0
            then signal_target fuel env (rt_target (nodes s node))
                   (dump_states node (emit (EV_log_warn ''graph not finished'') s))
            else Inr s) of
        Inl f \<Rightarrow> Inl f
      | Inr s1 \<Rightarrow>
          (case check_updates (acts s1 node) of
             Inl f \<Rightarrow> Inl f
           | Inr (sync, rowner, a1) \<Rightarrow>
               let s2 = act_upd node (\<lambda>_. a1) s1;
                   all_ready = (sync = SYNC_CHECK);
                   update_sync = (\<not> all_ready);
                   target_sync = (sync = SYNC_START);
                   (reposition_node, all_ready1, s3) =
                     foldl (\<lambda>acc r. node_ready_target node rowner (segment_owner0 a1)
                                      (segment_owner1 a1) update_sync target_sync r acc)
                       (None, all_ready, s2) (rt_target_list (nodes s2 node));
                   s4 = act_upd node (\<lambda>a. a\<lparr>prev_signal_time := signal_time a\<rparr>) s3
               in case (case reposition_node of
                          None \<Rightarrow> Inr s4
                        | Some rn \<Rightarrow>
                            (case do_reposition (acts s4 node) (a_reposition (acts s4 rn)) of
                               Inl f \<Rightarrow> Inl f
                             | Inr a2 \<Rightarrow> Inr (act_upd node (\<lambda>_. a2) s4))) of
                    Inl f \<Rightarrow> Inl f
                  | Inr s5 \<Rightarrow> Inr (update_position node all_ready1 s5)))"

text \<open>
  \<open>node_ready\<close> of \<open>node.c\<close>, the \<open>ready\<close> callback of a node; it returns 0 on
  every path, so only the store is kept.
\<close>

definition node_ready :: "nat \<Rightarrow> env \<Rightarrow> nat \<Rightarrow> int \<Rightarrow> world \<Rightarrow> fault + world" where
  "node_ready fuel env node status s =
     (case (if node = driver_node (nodes s node) then node_ready_driver fuel env node s
            else Inr s) of
        Inl f \<Rightarrow> Inl f
      | Inr s1 \<Rightarrow>
          if driver (nodes s1 node) \<and> \<not> master (nodes s1 node) then Inr s1
          else
            resume_node fuel env node
              (if status AND SPA_STATUS_HAVE_DATA \<noteq> 0
               then process_mixes node (rt_output_mix (nodes s1 node)) s1 else s1))"

text \<open>\<open>node_xrun\<close> of \<open>node.c\<close>, the \<open>xrun\<close> callback of a node.\<close>

definition node_xrun :: "nat \<Rightarrow> u64 \<Rightarrow> u64 \<Rightarrow> world \<Rightarrow> world" where
  "node_xrun this trigger delay s =
     act_upd this (\<lambda>a. a\<lparr>xrun_count := xrun_count a + 1, xrun_time := trigger,
       xrun_delay := delay, max_delay := max (max_delay a) delay\<rparr>) s"

text \<open>
  \<open>node_ready\<close> of \<open>remote-node.c\<close>, the \<open>ready\<close> callback of an exported node;
  \<open>rtwritefd\<close> is the fd of its \<open>node_data\<close>.
\<close>

definition remote_node_ready :: "env \<Rightarrow> nat \<Rightarrow> int \<Rightarrow> int \<Rightarrow> world \<Rightarrow> world" where
  "remote_node_ready env node rtwritefd status s =
     (let s1 = (if status = SPA_STATUS_HAVE_DATA
                then process_mixes node (rt_output_mix (nodes s node)) s else s);
          (nsec, s2) = clock_gettime env s1;
          s3 = act_upd node (\<lambda>a. a\<lparr>a_status := PW_NODE_ACTIVATION_TRIGGERED,
                 signal_time := nsec\<rparr>) s2
      in emit (EV_write_fd rtwritefd) s3)"

section \<open>The channel merger and splitter: \<open>use_buffers\<close>\<close>

definition EIO :: int where "EIO = 5"
definition EINVAL :: int where "EINVAL = 22"
definition MAX_BUFFERS :: nat where "MAX_BUFFERS = 64"
definition MAX_DATAS :: nat where "MAX_DATAS = 32"
definition BUFFER_FLAG_QUEUED :: u32 where "BUFFER_FLAG_QUEUED = 1"

text \<open>
  Modelled from the spec: the data types and flags of a buffer's data blocks are
  declared outside the sources at hand; the spec lists the types \<open>MemPtr, MemFd,
  DmaBuf, MemId\<close> and the flag \<open>DYNAMIC\<close>.
\<close>

datatype spa_data_type =
    SPA_DATA_Invalid | SPA_DATA_MemPtr | SPA_DATA_MemFd | SPA_DATA_DmaBuf | SPA_DATA_MemId

definition SPA_DATA_FLAG_DYNAMIC :: u32 where "SPA_DATA_FLAG_DYNAMIC = 4"

datatype spa_direction = SPA_DIRECTION_INPUT | SPA_DIRECTION_OUTPUT

text \<open>A data block: its type, its flags and its address (0 is \<open>NULL\<close>).\<close>

record spa_data =
  d_type :: spa_data_type
  d_flags :: u32
  d_data :: nat

record spa_buffer =
  datas :: "spa_data list"

record buffer =
  b_id :: u32
  b_flags :: u32
  b_buf :: "spa_buffer option"
  b_datas :: "nat list"

text \<open>\<open>struct port\<close> of the two converters; \<open>queue\<close> lists the indices of the queued buffers.\<close>

record port =
  have_format :: bool
  blocks :: u32
  buffers :: "buffer list"
  n_buffers :: u32
  queue :: "nat list"

record merger =
  m_port_count :: u32
  m_monitor_count :: u32
  m_in_ports :: "port list"
  m_out_ports :: "port list"
  m_is_passthrough :: bool

record splitter =
  s_port_count :: u32
  s_in_ports :: "port list"
  s_out_ports :: "port list"
  s_is_passthrough :: bool

definition clear_buffers :: "port \<Rightarrow> port" where
  "clear_buffers p = (if n_buffers p > 0 then p\<lparr>n_buffers := 0, queue := []\<rparr> else p)"

definition queue_buffer :: "port \<Rightarrow> nat \<Rightarrow> port" where
  "queue_buffer p i =
     (let b = buffers p ! i in
      if b_flags b AND BUFFER_FLAG_QUEUED \<noteq> 0 then p
      else p\<lparr>queue := queue p @ [i],
             buffers := (buffers p)[i := b\<lparr>b_flags := b_flags b OR BUFFER_FLAG_QUEUED\<rparr>]\<rparr>)"

text \<open>
  The loop over the data blocks of one buffer: the result (0 or \<open>-EINVAL\<close>), the buffer
  and \<open>is_passthrough\<close>. A write past \<open>datas[MAX_DATAS]\<close> is a fault.
\<close>

fun use_datas ::
    "spa_direction \<Rightarrow> spa_data list \<Rightarrow> nat \<Rightarrow> buffer \<Rightarrow> bool \<Rightarrow> fault + (int \<times> buffer \<times> bool)" where
  "use_datas dir [] j b pt = Inr (0, b, pt)"
| "use_datas dir (d # ds) j b pt =
     (if \<not> ((d_type d = SPA_DATA_MemPtr \<or> d_type d = SPA_DATA_MemFd \<or> d_type d = SPA_DATA_DmaBuf)
             \<and> d_data d \<noteq> 0)
      then Inr (- EINVAL, b, pt)
      else if j \<ge> MAX_DATAS then Inl OUT_OF_BOUNDS
      else use_datas dir ds (Suc j) (b\<lparr>b_datas := (b_datas b)[j := d_data d]\<rparr>)
             (if dir = SPA_DIRECTION_OUTPUT \<and> d_flags d AND SPA_DATA_FLAG_DYNAMIC = 0
              then False else pt))"

text \<open>
  The loop over the buffers. The merger checks the number of blocks of every buffer,
  the splitter does not; \<open>check_blocks\<close> tells which of the two is running.
\<close>

fun use_buffers_loop ::
    "bool \<Rightarrow> spa_direction \<Rightarrow> spa_buffer list \<Rightarrow> nat \<Rightarrow> port \<Rightarrow> bool \<Rightarrow> fault + (int \<times> port \<times> bool)" where
  "use_buffers_loop check_blocks dir [] i p pt = Inr (0, p, pt)"
| "use_buffers_loop check_blocks dir (buf # bufs) i p pt =
     (if i \<ge> MAX_BUFFERS \<or> i \<ge> length (buffers p) then Inl OUT_OF_BOUNDS
      else
        let b = (buffers p ! i)\<lparr>b_id := of_nat i, b_flags := 0, b_buf := Some buf\<rparr> in
        if check_blocks \<and> of_nat (length (datas buf)) \<noteq> blocks p
        then Inr (- EINVAL, p\<lparr>buffers := (buffers p)[i := b]\<rparr>, pt)
        else
          (case use_datas dir (datas buf) 0 b pt of
             Inl f \<Rightarrow> Inl f
           | Inr (res, b1, pt1) \<Rightarrow>
               let p1 = p\<lparr>buffers := (buffers p)[i := b1]\<rparr> in
               if res < 0 then Inr (res, p1, pt1)
               else use_buffers_loop check_blocks dir bufs (Suc i)
                      (if dir = SPA_DIRECTION_OUTPUT then queue_buffer p1 i else p1) pt1))"

definition port_use_buffers ::
    "bool \<Rightarrow> spa_direction \<Rightarrow> spa_buffer list \<Rightarrow> port \<Rightarrow> bool \<Rightarrow> fault + (int \<times> port \<times> bool)" where
  "port_use_buffers check_blocks dir bufs p pt =
     (if \<not> have_format p then Inr (- EIO, p, pt)
      else
        (case use_buffers_loop check_blocks dir bufs 0 (clear_buffers p) pt of
           Inl f \<Rightarrow> Inl f
         | Inr (res, p1, pt1) \<Rightarrow>
             if res < 0 then Inr (res, p1, pt1)
             else Inr (0, p1\<lparr>n_buffers := of_nat (length bufs)\<rparr>, pt1)))"

text \<open>
  \<open>impl_node_port_use_buffers\<close> of \<open>merger.c\<close>. The object is a merger, so the
  \<open>this != NULL\<close> test has passed.
\<close>

definition merger_CHECK_PORT :: "merger \<Rightarrow> spa_direction \<Rightarrow> u32 \<Rightarrow> bool" where
  "merger_CHECK_PORT this d p =
     ((d = SPA_DIRECTION_OUTPUT \<and> p \<le> m_monitor_count this)
      \<or> (d = SPA_DIRECTION_INPUT \<and> p < m_port_count this))"

definition merger_GET_PORT :: "merger \<Rightarrow> spa_direction \<Rightarrow> u32 \<Rightarrow> port" where
  "merger_GET_PORT this d p =
     (if d = SPA_DIRECTION_INPUT then m_in_ports this ! unat p else m_out_ports this ! unat p)"

definition merger_port_use_buffers ::
    "merger \<Rightarrow> spa_direction \<Rightarrow> u32 \<Rightarrow> u32 \<Rightarrow> spa_buffer list \<Rightarrow> fault + (int \<times> merger)" where
  "merger_port_use_buffers this direction pid flags bufs =
     (if \<not> merger_CHECK_PORT this direction pid then Inr (- EINVAL, this)
      else if unat pid \<ge> length (if direction = SPA_DIRECTION_INPUT
                                   then m_in_ports this else m_out_ports this)
      then Inl OUT_OF_BOUNDS
      else
        (case port_use_buffers True direction bufs (merger_GET_PORT this direction pid)
                (m_is_passthrough this) of
           Inl f \<Rightarrow> Inl f
         | Inr (res, p, pt) \<Rightarrow>
             Inr (res,
               (if direction = SPA_DIRECTION_INPUT
                then this\<lparr>m_in_ports := (m_in_ports this)[unat pid := p]\<rparr>
                else this\<lparr>m_out_ports := (m_out_ports this)[unat pid := p]\<rparr>)
               \<lparr>m_is_passthrough := pt\<rparr>)))"

text \<open>\<open>impl_node_port_use_buffers\<close> of \<open>splitter.c\<close>.\<close>

definition splitter_CHECK_PORT :: "splitter \<Rightarrow> spa_direction \<Rightarrow> u32 \<Rightarrow> bool" where
  "splitter_CHECK_PORT this d p =
     ((d = SPA_DIRECTION_OUTPUT \<and> p < s_port_count this)
      \<or> (d = SPA_DIRECTION_INPUT \<and> p = 0))"

definition splitter_GET_PORT :: "splitter \<Rightarrow> spa_direction \<Rightarrow> u32 \<Rightarrow> port" where
  "splitter_GET_PORT this d p =
     (if d = SPA_DIRECTION_INPUT then s_in_ports this ! unat p else s_out_ports this ! unat p)"

definition splitter_port_use_buffers ::
    "splitter \<Rightarrow> spa_direction \<Rightarrow> u32 \<Rightarrow> u32 \<Rightarrow> spa_buffer list \<Rightarrow> fault + (int \<times> splitter)" where
  "splitter_port_use_buffers this direction pid flags bufs =
     (if \<not> splitter_CHECK_PORT this direction pid then Inr (- EINVAL, this)
      else if unat pid \<ge> length (if direction = SPA_DIRECTION_INPUT
                                   then s_in_ports this else s_out_ports this)
      then Inl OUT_OF_BOUNDS
      else
        (case port_use_buffers False direction bufs (splitter_GET_PORT this direction pid)
                (s_is_passthrough this) of
           Inl f \<Rightarrow> Inl f
         | Inr (res, p, pt) \<Rightarrow>
             Inr (res,
               (if direction = SPA_DIRECTION_INPUT
                then this\<lparr>s_in_ports := (s_in_ports this)[unat pid := p]\<rparr>
                else this\<lparr>s_out_ports := (s_out_ports this)[unat pid := p]\<rparr>)
               \<lparr>s_is_passthrough := pt\<rparr>)))"

text \<open>
  An activation with the fields that \<open>process_node\<close> and \<open>resume_node\<close> write
  blanked: what is left is what a cycle does not touch.
\<close>

definition act_static :: "pw_node_activation \<Rightarrow> pw_node_activation" where
  "act_static a =
     a\<lparr>a_status := PW_NODE_ACTIVATION_NOT_TRIGGERED, pending_sync := False,
       pending_new_pos := False, state0 := (state0 a)\<lparr>st_status := 0, pending := 0\<rparr>,
       signal_time := 0, awake_time := 0, finish_time := 0\<rparr>"

definition cycle_frame :: "world \<Rightarrow> world \<Rightarrow> bool" where
  "cycle_frame s s' \<longleftrightarrow>
     nodes s' = nodes s \<and> links s' = links s \<and> ticks s \<le> ticks s'
     \<and> (\<forall>a. act_static (acts s' a) = act_static (acts s a))"

section \<open>Node creation\<close>

text \<open>
  \<open>DEFAULT_QUANTUM\<close> and \<open>SPA_IO_POSITION_MAX_SEGMENTS\<close>; the first is declared outside
  the sources at hand and its value enters no statement below.
\<close>

definition DEFAULT_QUANTUM :: u64 where "DEFAULT_QUANTUM = 1024"
definition SPA_IO_POSITION_MAX_SEGMENTS :: nat where "SPA_IO_POSITION_MAX_SEGMENTS = 8"

definition reset_segment :: spa_io_segment where
  "reset_segment =
     \<lparr>seg_version = 0, seg_flags = 0, seg_start = 0, seg_duration = 0, seg_rate = DOUBLE_1_0,
      seg_position = 0, seg_bar = SPA_IO_SEGMENT_BAR 0, seg_video = SPA_IO_SEGMENT_VIDEO 0\<rparr>"

definition reset_position :: "spa_io_position \<Rightarrow> spa_io_position" where
  "reset_position pos =
     pos\<lparr>clock_rate_num := 1, clock_rate_denom := 48000, clock_duration := DEFAULT_QUANTUM,
         pos_offset := INT64_MIN, n_segments := 1,
         segments := replicate SPA_IO_POSITION_MAX_SEGMENTS reset_segment\<rparr>"

text \<open>The memory \<open>calloc\<close> and the memory pool hand out: all bits zero.\<close>

definition zero_segment :: spa_io_segment where
  "zero_segment =
     \<lparr>seg_version = 0, seg_flags = 0, seg_start = 0, seg_duration = 0, seg_rate = 0,
      seg_position = 0, seg_bar = SPA_IO_SEGMENT_BAR 0, seg_video = SPA_IO_SEGMENT_VIDEO 0\<rparr>"

definition zero_activation :: pw_node_activation where
  "zero_activation =
     \<lparr>a_status = PW_NODE_ACTIVATION_NOT_TRIGGERED, pending_sync = False, pending_new_pos = False,
      state0 = \<lparr>st_status = 0, required = 0, pending = 0\<rparr>,
      a_command = PW_NODE_ACTIVATION_COMMAND_NONE, reposition_owner = 0,
      signal_time = 0, awake_time = 0, finish_time = 0, prev_signal_time = 0,
      sync_timeout = 0, sync_left = 0,
      xrun_count = 0, xrun_time = 0, xrun_delay = 0, max_delay = 0,
      segment_owner0 = 0, segment_owner1 = 0,
      a_position = \<lparr>clock_id = 0, clock_rate_num = 0, clock_rate_denom = 0, clock_position = 0,
        clock_duration = 0, pos_offset = 0, pos_state = SPA_IO_POSITION_STATE_STOPPED,
        n_segments = 0, segments = replicate SPA_IO_POSITION_MAX_SEGMENTS zero_segment\<rparr>,
      a_reposition = zero_segment, a_segment = zero_segment\<rparr>"

definition zero_target :: pw_node_target where
  "zero_target = \<lparr>t_activation = 0, t_node = None, t_signal = SIGNAL_process_node, t_data = 0\<rparr>"

definition zero_node :: pw_node where
  "zero_node =
     \<lparr>info_id = 0, info_state = PW_NODE_STATE_CREATING, info_error = None,
      node_name = None, properties = Map.empty,
      active = False, driver = False, master = False, want_driver = False, registered = False,
      exported = False, pause_on_idle = False, quantum_size = 0,
      n_ready_output_links = 0, n_used_output_links = 0,
      n_ready_input_links = 0, n_used_input_links = 0,
      input_ports = [], output_ports = [],
      driver_node = 0, source_loop = False,
      rt_target = zero_target, rt_driver_target = zero_target,
      rt_target_list = [], rt_input_mix = [], rt_output_mix = []\<rparr>"

text \<open>
  \<open>pw_node_new\<close> on its successful path: the node gets the name \<open>this\<close>, a zeroed
  structure and a zeroed activation record; the failures of the allocations are
  outside the model.
\<close>

definition pw_node_new :: "env \<Rightarrow> nat \<Rightarrow> (string \<rightharpoonup> string) \<Rightarrow> world \<Rightarrow> world" where
  "pw_node_new env this props s =
     (let n = zero_node\<lparr>properties := props, info_state := PW_NODE_STATE_CREATING,
                rt_target := \<lparr>t_activation = this, t_node = Some this,
                               t_signal = SIGNAL_process_node, t_data = this\<rparr>,
                rt_driver_target := zero_target\<lparr>t_signal := SIGNAL_process_node\<rparr>\<rparr>;
          a = zero_activation\<lparr>a_position := reset_position (a_position zero_activation),
                sync_timeout := 5 * SPA_NSEC_PER_SEC, sync_left := 0\<rparr>;
          s1 = s\<lparr>nodes := (nodes s)(this := n), acts := (acts s)(this := a)\<rparr>;
          s2 = check_properties env this s1
      in node_upd this (\<lambda>x. x\<lparr>driver_node := this, master := True\<rparr>) s2)"

section \<open>Example configurations\<close>

text \<open>
  A clock that advances by ten nanoseconds per reading, processors that report
  \<open>HAVE_DATA\<close>, commands and format changes that succeed, and a latency scanner that
  knows one string.
\<close>

definition env0 :: env where
  "env0 =
     \<lparr>e_clock = (\<lambda>i. 1000 + 10 * of_nat i),
      e_process = (\<lambda>n i. 2),
      e_send_command = (\<lambda>n c. 0),
      e_port_clear_format = (\<lambda>p. (0, p)),
      e_parse_bool = (\<lambda>str. str = ''true''),
      e_scan_fraction = (\<lambda>str. if str = ''1000/48000'' then Some (1000, 48000) else None)\<rparr>"

definition world0 :: world where
  "world0 =
     \<lparr>nodes = (\<lambda>_. zero_node), acts = (\<lambda>_. zero_activation),
      links = (\<lambda>l. \<lparr>link_node_id = 0,
                     link_target = \<lparr>t_activation = l, t_node = None,
                                     t_signal = SIGNAL_link_signal_func, t_data = l\<rparr>,
                     link_signalfd = 3\<rparr>),
      driver_list = [], ticks = 0, trace = []\<rparr>"

text \<open>Node 0 is created as a driver and node 1 as a plain node; both follow node 0.\<close>

definition world2 :: world where
  "world2 =
     node_upd 1 (\<lambda>x. x\<lparr>driver_node := 0, master := False\<rparr>)
       (pw_node_new env0 1 Map.empty
         (pw_node_new env0 0 [PW_KEY_NODE_DRIVER \<mapsto> ''true''] world0))"

text \<open>Both nodes of \<open>world2\<close> attached to the driver, in the order driver, follower.\<close>

definition world2_running :: world where
  "world2_running = add_node 1 0 (add_node 0 0 world2)"

text \<open>Node 0 of \<open>world2\<close> idle and active; then with one input link in use that is not ready.\<close>

definition world_idle :: world where
  "world_idle = node_upd 0 (\<lambda>n. n\<lparr>info_state := PW_NODE_STATE_IDLE, active := True\<rparr>) world2"

definition world_unready :: world where
  "world_unready = node_upd 0 (\<lambda>n. n\<lparr>n_used_input_links := 1\<rparr>) world_idle"

text \<open>
  Collaborators that fail: every command and every format change returns \<open>-EIO\<close> and
  leaves the port as it was. Node 0 running, with one input and two output ports.
\<close>

definition env_failing :: env where
  "env_failing = env0\<lparr>e_send_command := (\<lambda>n c. - 5), e_port_clear_format := (\<lambda>p. (- 5, p))\<rparr>"

definition world_ports :: world where
  "world_ports =
     node_upd 0 (\<lambda>n. n\<lparr>info_state := PW_NODE_STATE_RUNNING, active := True,
        input_ports := [\<lparr>port_id = 0, port_state = PW_PORT_STATE_PAUSED, port_links = [7]\<rparr>],
        output_ports := [\<lparr>port_id = 0, port_state = PW_PORT_STATE_READY, port_links = []\<rparr>,
                         \<lparr>port_id = 1, port_state = PW_PORT_STATE_PAUSED, port_links = [8]\<rparr>]\<rparr>)
       world2"

text \<open>Converter ports as \<open>calloc\<close> leaves them, and one buffer with one mapped block.\<close>

definition zero_buffer :: buffer where
  "zero_buffer = \<lparr>b_id = 0, b_flags = 0, b_buf = None, b_datas = replicate MAX_DATAS 0\<rparr>"

definition zero_port :: port where
  "zero_port = \<lparr>have_format = False, blocks = 0, buffers = replicate MAX_BUFFERS zero_buffer,
     n_buffers = 0, queue = []\<rparr>"

text \<open>A merger and a splitter with two channel ports each and no format on any port.\<close>

definition merger0 :: merger where
  "merger0 = \<lparr>m_port_count = 2, m_monitor_count = 0,
     m_in_ports = [zero_port, zero_port], m_out_ports = [zero_port],
     m_is_passthrough = True\<rparr>"

definition splitter0 :: splitter where
  "splitter0 = \<lparr>s_port_count = 2,
     s_in_ports = [zero_port], s_out_ports = [zero_port, zero_port],
     s_is_passthrough = True\<rparr>"

definition buffer0 :: spa_buffer where
  "buffer0 = \<lparr>datas = [\<lparr>d_type = SPA_DATA_MemPtr, d_flags = 0, d_data = 4096\<rparr>]\<rparr>"

text \<open>The activation of a freshly created node with a pending \<open>START\<close> command.\<close>

definition activation_start :: pw_node_activation where
  "activation_start =
     (acts world2 0)\<lparr>a_command := PW_NODE_ACTIVATION_COMMAND_START\<rparr>"

text \<open>The two-node graph starting, with \<open>sync_left = 1\<close>.\<close>

definition world_starting :: world where
  "world_starting =
     act_upd 0 (\<lambda>a. (set_pos_state SPA_IO_POSITION_STATE_STARTING a)\<lparr>sync_left := 1\<rparr>)
       world2_running"

text \<open>Node 1 of \<open>world2\<close> exported, with two predecessors still to come.\<close>

definition world_remote :: world where
  "world_remote =
     act_upd 1 (\<lambda>a. a\<lparr>state0 := (state0 a)\<lparr>required := 2, pending := 2\<rparr>\<rparr>)
       (node_upd 1 (\<lambda>n. n\<lparr>exported := True\<rparr>) world2)"

section \<open>The quantum of a node\<close>

lemma smear_step:
  fixes a x :: "32 word"
  assumes "\<And>n. bit a n \<longleftrightarrow> (\<exists>j<m. bit x (n + j))"
  shows "bit (a OR drop_bit m a) n \<longleftrightarrow> (\<exists>j<2 * m. bit x (n + j))"
proof -
  have "bit (a OR drop_bit m a) n \<longleftrightarrow> bit a n \<or> bit a (m + n)"
    by (simp add: bit_or_iff bit_drop_bit_eq)
  also have "\<dots> \<longleftrightarrow> (\<exists>j<m. bit x (n + j)) \<or> (\<exists>j<m. bit x (m + n + j))"
    by (simp add: assms)
  also have "\<dots> \<longleftrightarrow> (\<exists>j<2 * m. bit x (n + j))"
  proof
    assume "(\<exists>j<m. bit x (n + j)) \<or> (\<exists>j<m. bit x (m + n + j))"
    then show "\<exists>j<2 * m. bit x (n + j)"
    proof
      assume "\<exists>j<m. bit x (n + j)"
      then obtain j where "j < m" "bit x (n + j)" by blast
      then show ?thesis by (intro exI[of _ j]) simp
    next
      assume "\<exists>j<m. bit x (m + n + j)"
      then obtain j where "j < m" "bit x (m + n + j)" by blast
      then show ?thesis by (intro exI[of _ "m + j"]) (simp add: ac_simps)
    qed
  next
    assume "\<exists>j<2 * m. bit x (n + j)"
    then obtain j where j: "j < 2 * m" "bit x (n + j)" by blast
    show "(\<exists>j<m. bit x (n + j)) \<or> (\<exists>j<m. bit x (m + n + j))"
    proof (cases "j < m")
      case True with j show ?thesis by blast
    next
      case False
      with j have "j - m < m" "bit x (m + n + (j - m))" by (simp_all add: ac_simps)
      then show ?thesis by blast
    qed
  qed
  finally show ?thesis .
qed

lemma flp2_smear: "flp2 x = smear x - drop_bit 1 (smear x)"
  unfolding flp2_def smear_def Let_def by (rule refl)

lemma bit_smear: "bit (smear x) n \<longleftrightarrow> (\<exists>j<32. bit x (n + j))"
proof -
  define x1 where "x1 = x OR drop_bit 1 x"
  define x2 where "x2 = x1 OR drop_bit 2 x1"
  define x3 where "x3 = x2 OR drop_bit 4 x2"
  define x4 where "x4 = x3 OR drop_bit 8 x3"
  have b0: "bit x n \<longleftrightarrow> (\<exists>j<1. bit x (n + j))" for n by simp
  have b1: "bit x1 n \<longleftrightarrow> (\<exists>j<2. bit x (n + j))" for n
    unfolding x1_def using smear_step [of x 1 x n, OF b0] by simp
  have b2: "bit x2 n \<longleftrightarrow> (\<exists>j<4. bit x (n + j))" for n
    unfolding x2_def using smear_step [of x1 2 x n, OF b1] by simp
  have b3: "bit x3 n \<longleftrightarrow> (\<exists>j<8. bit x (n + j))" for n
    unfolding x3_def using smear_step [of x2 4 x n, OF b2] by simp
  have b4: "bit x4 n \<longleftrightarrow> (\<exists>j<16. bit x (n + j))" for n
    unfolding x4_def using smear_step [of x3 8 x n, OF b3] by simp
  have "bit (x4 OR drop_bit 16 x4) n \<longleftrightarrow> (\<exists>j<32. bit x (n + j))"
    using smear_step [of x4 16 x n, OF b4] by simp
  moreover have "smear x = x4 OR drop_bit 16 x4"
    unfolding smear_def Let_def x1_def x2_def x3_def x4_def by (rule refl)
  ultimately show ?thesis by simp
qed

lemma bit_word_between:
  fixes x :: "32 word"
  assumes lo: "2 ^ k \<le> unat x" and hi: "unat x < 2 ^ Suc k"
  shows "bit x n \<longleftrightarrow> (n = k \<or> (n < k \<and> bit x n))"
proof -
  have bn: "bit x n \<longleftrightarrow> odd (unat x div 2 ^ n)" for n
    using bit_unsigned_iff [of x n, where ?'a = nat] by (simp add: bit_iff_odd)
  have "unat x div 2 ^ k = 1"
  proof -
    have "unat x div 2 ^ k < 2" using hi by (simp add: less_mult_imp_div_less)
    moreover have "0 < unat x div 2 ^ k" using lo by (simp add: div_greater_zero_iff)
    ultimately show ?thesis by simp
  qed
  then have k: "bit x k" by (simp add: bn)
  have "\<not> bit x n" if "k < n" for n
  proof -
    have "(2::nat) ^ Suc k \<le> 2 ^ n" using that by (intro power_increasing) simp_all
    with hi have "unat x div 2 ^ n = 0" by simp
    then show ?thesis by (simp add: bn)
  qed
  with k show ?thesis by (metis linorder_neqE_nat)
qed

lemma between_lt_32:
  fixes x :: "32 word"
  assumes lo: "2 ^ k \<le> unat x"
  shows "k < 32"
proof (rule ccontr)
  assume "\<not> k < 32"
  then have "(2::nat) ^ 32 \<le> 2 ^ k" by (intro power_increasing) simp_all
  moreover have "unat x < 2 ^ 32" using unsigned_less [of x, where ?'a = nat] by simp
  ultimately show False using lo by simp
qed

lemma smear_mask:
  fixes x :: "32 word"
  assumes lo: "2 ^ k \<le> unat x" and hi: "unat x < 2 ^ Suc k"
  shows "smear x = mask (Suc k)"
proof (rule bit_eqI)
  fix n
  assume "possible_bit TYPE(32 word) n"
  have k32: "k < 32" using lo by (rule between_lt_32)
  have bk: "bit x k" using bit_word_between [OF lo hi, of k] by simp
  have hiz: "\<not> bit x m" if "k < m" for m
    using bit_word_between [OF lo hi, of m] that by simp
  have "(\<exists>j<32. bit x (n + j)) \<longleftrightarrow> n \<le> k"
  proof
    assume "\<exists>j<32. bit x (n + j)"
    then obtain j where "bit x (n + j)" by blast
    with hiz [of "n + j"] show "n \<le> k" by (cases "k < n + j") simp_all
  next
    assume "n \<le> k"
    then have "k - n < 32" "bit x (n + (k - n))" using k32 bk by simp_all
    then show "\<exists>j<32. bit x (n + j)" by blast
  qed
  then show "bit (smear x) n \<longleftrightarrow> bit (mask (Suc k) :: 32 word) n"
    using k32 by (auto simp add: bit_smear bit_mask_iff possible_bit_word)
qed

lemma flp2_between:
  fixes x :: "32 word"
  assumes lo: "2 ^ k \<le> unat x" and hi: "unat x < 2 ^ Suc k"
  shows "flp2 x = 2 ^ k"
proof -
  have "flp2 x = mask (Suc k) - drop_bit 1 (mask (Suc k))"
    by (simp add: flp2_smear smear_mask [OF lo hi])
  also have "\<dots> = mask (Suc k) - (mask k :: 32 word)"
  proof -
    have "drop_bit 1 (mask (Suc k) :: 32 word) = mask k"
      using between_lt_32 [OF lo]
      by (intro bit_eqI) (auto simp add: bit_drop_bit_eq bit_mask_iff possible_bit_word)
    then show ?thesis by simp
  qed
  also have "\<dots> = 2 ^ k"
    by (simp add: mask_eq_exp_minus_1)
  finally show ?thesis .
qed

lemma flp2_zero: "flp2 0 = 0"
  by (simp add: flp2_def)


lemma unat_exp_32:
  assumes "k < 32"
  shows "unat (2 ^ k :: u32) = 2 ^ k"
proof -
  have lt: "(2::nat) ^ k < 2 ^ 32"
    using assms by (rule power_strict_increasing) simp
  have "unat (of_nat (2 ^ k) :: u32) = 2 ^ k mod 2 ^ LENGTH(32)"
    by (rule unat_of_nat)
  also have "\<dots> = 2 ^ k"
    using lt by simp
  finally show ?thesis by simp
qed

lemma nonzero_between:
  fixes x :: u32
  assumes "x \<noteq> 0"
  shows "\<exists>k. 2 ^ k \<le> unat x \<and> unat x < 2 ^ Suc k"
proof -
  have "unat x \<noteq> 0" using assms by (simp add: unsigned_eq_0_iff)
  then have "1 \<le> unat x" by simp
  with ex_power_ivl1 [of 2 "unat x"] obtain k where "2 ^ k \<le> unat x \<and> unat x < 2 ^ (k + 1)"
    by blast
  then show ?thesis by auto
qed

lemma flp2_largest_power:
  assumes "x \<noteq> 0"
  shows "\<exists>k. unat (flp2 x) = 2 ^ k \<and> 2 ^ k \<le> unat x \<and> unat x < 2 ^ Suc k"
proof -
  from nonzero_between [OF assms] obtain k
    where lo: "2 ^ k \<le> unat x" and hi: "unat x < 2 ^ Suc k" by blast
  have "flp2 x = 2 ^ k" using lo hi by (rule flp2_between)
  moreover have "k < 32" using lo by (rule between_lt_32)
  ultimately have "unat (flp2 x) = 2 ^ k" by (simp only: unat_exp_32)
  with lo hi show ?thesis by blast
qed

lemma check_properties_node:
  "nodes (check_properties env this s) this =
     fst (check_latency env
       (if driver (check_flags env (nodes s this)) \<noteq> check_driver env (nodes s this)
        then (check_flags env (nodes s this))\<lparr>driver := check_driver env (nodes s this)\<rparr>
        else check_flags env (nodes s this)))"
  by (simp add: check_properties_def Let_def emit_def)

lemma check_flags_keep:
  "properties (check_flags env n) = properties n"
  "quantum_size (check_flags env n) = quantum_size n"
  by (simp_all add: check_flags_def Let_def split: option.splits)

lemma check_latency_quantum:
  "quantum_size (fst (check_latency env n)) =
     (case properties n PW_KEY_NODE_LATENCY of
        None \<Rightarrow> quantum_size n
      | Some str \<Rightarrow>
          (case e_scan_fraction env str of
             None \<Rightarrow> quantum_size n
           | Some (num, denom) \<Rightarrow>
               if denom \<noteq> 0 then flp2 (num * 48000 div denom) else quantum_size n))"
  by (simp add: check_latency_def Let_def split: option.splits)

lemma check_properties_quantum:
  "quantum_size (nodes (check_properties env this s) this) =
     (case properties (nodes s this) PW_KEY_NODE_LATENCY of
        None \<Rightarrow> quantum_size (nodes s this)
      | Some str \<Rightarrow>
          (case e_scan_fraction env str of
             None \<Rightarrow> quantum_size (nodes s this)
           | Some (num, denom) \<Rightarrow>
               if denom \<noteq> 0 then flp2 (num * 48000 div denom) else quantum_size (nodes s this)))"
proof -
  define n4 where "n4 =
       (if driver (check_flags env (nodes s this)) \<noteq> check_driver env (nodes s this)
        then (check_flags env (nodes s this))\<lparr>driver := check_driver env (nodes s this)\<rparr>
        else check_flags env (nodes s this))"
  have p: "properties n4 = properties (nodes s this)"
    and q: "quantum_size n4 = quantum_size (nodes s this)"
    by (simp_all add: n4_def check_flags_keep)
  have "nodes (check_properties env this s) this = fst (check_latency env n4)"
    unfolding n4_def by (rule check_properties_node)
  then show ?thesis
    by (simp only: check_latency_quantum p q)
qed

text \<open>
  Claim C9. When the \<open>PW_KEY_NODE_LATENCY\<close> property of a node scans as \<open>num/denom\<close>
  with a non-zero \<open>denom\<close>, \<open>check_properties\<close> leaves
  \<open>flp2 (num * 48000 / denom)\<close> (unsigned 32-bit arithmetic) in \<open>quantum_size\<close>; when
  the property is absent or does not scan, \<open>quantum_size\<close> keeps its value. \<open>flp2 0\<close> is
  0, and for \<open>x > 0\<close> the value \<open>flp2 x\<close> is a power of two, at most \<open>x\<close>, and no power
  of two that is at most \<open>x\<close> exceeds it.
\<close>

theorem flp2_quantum_size:
  "(properties (nodes s this) PW_KEY_NODE_LATENCY = Some str
      \<and> e_scan_fraction env str = Some (num, denom) \<and> denom \<noteq> 0
      \<longrightarrow> quantum_size (nodes (check_properties env this s) this) = flp2 (num * 48000 div denom))
   \<and> (properties (nodes s this) PW_KEY_NODE_LATENCY = None
        \<or> (properties (nodes s this) PW_KEY_NODE_LATENCY = Some str \<and> e_scan_fraction env str = None)
      \<longrightarrow> quantum_size (nodes (check_properties env this s) this) = quantum_size (nodes s this))
   \<and> flp2 0 = 0
   \<and> (x \<noteq> 0 \<longrightarrow>
        (\<exists>k. unat (flp2 x) = 2 ^ k) \<and> unat (flp2 x) \<le> unat x
        \<and> (\<forall>j. 2 ^ j \<le> unat x \<longrightarrow> 2 ^ j \<le> unat (flp2 x)))"
proof (intro conjI impI)
  assume "properties (nodes s this) PW_KEY_NODE_LATENCY = Some str
      \<and> e_scan_fraction env str = Some (num, denom) \<and> denom \<noteq> 0"
  then show "quantum_size (nodes (check_properties env this s) this) = flp2 (num * 48000 div denom)"
    by (simp add: check_properties_quantum)
next
  assume "properties (nodes s this) PW_KEY_NODE_LATENCY = None
        \<or> (properties (nodes s this) PW_KEY_NODE_LATENCY = Some str \<and> e_scan_fraction env str = None)"
  then show "quantum_size (nodes (check_properties env this s) this) = quantum_size (nodes s this)"
    by (auto simp add: check_properties_quantum)
next
  show "flp2 0 = 0" by (rule flp2_zero)
next
  assume x: "x \<noteq> 0"
  then obtain k where k: "unat (flp2 x) = 2 ^ k" "2 ^ k \<le> unat x" "unat x < 2 ^ Suc k"
    using flp2_largest_power by blast
  show "\<exists>k. unat (flp2 x) = 2 ^ k" using k(1) by blast
  show "unat (flp2 x) \<le> unat x" using k by simp
  show "\<forall>j. 2 ^ j \<le> unat x \<longrightarrow> 2 ^ j \<le> unat (flp2 x)"
  proof (intro allI impI)
    fix j assume "(2::nat) ^ j \<le> unat x"
    with k(3) have "(2::nat) ^ j < 2 ^ Suc k" by simp
    then have "j < Suc k" by (rule power_less_imp_less_exp [rotated]) simp
    then have "(2::nat) ^ j \<le> 2 ^ k" by (intro power_increasing) simp_all
    then show "2 ^ j \<le> unat (flp2 x)" by (simp add: k(1))
  qed
qed


text \<open>The statement at the latency \<open>1000/48000\<close>, and at \<open>x = 1000\<close>.\<close>

theorem flp2_quantum_size_witness:
  "properties (nodes (node_upd 0 (\<lambda>n. n\<lparr>properties := [PW_KEY_NODE_LATENCY \<mapsto> ''1000/48000'']\<rparr>) world0) 0)
       PW_KEY_NODE_LATENCY = Some ''1000/48000''
   \<and> e_scan_fraction env0 ''1000/48000'' = Some (1000, 48000)
   \<and> (48000 :: u32) \<noteq> 0
   \<and> quantum_size (nodes (check_properties env0 0
         (node_upd 0 (\<lambda>n. n\<lparr>properties := [PW_KEY_NODE_LATENCY \<mapsto> ''1000/48000'']\<rparr>) world0)) 0) = 512
   \<and> (1000 :: u32) \<noteq> 0
   \<and> unat (flp2 1000) \<le> unat (1000 :: u32)"
proof -
  let ?w = "node_upd 0 (\<lambda>n. n\<lparr>properties := [PW_KEY_NODE_LATENCY \<mapsto> ''1000/48000'']\<rparr>) world0"
  have a: "properties (nodes ?w 0) PW_KEY_NODE_LATENCY = Some ''1000/48000''"
    by (simp add: node_upd_def)
  have b: "e_scan_fraction env0 ''1000/48000'' = Some (1000, 48000)"
    by (simp add: env0_def)
  have c: "(48000 :: u32) \<noteq> 0" and d: "(1000 :: u32) \<noteq> 0"
    by simp_all
  have f: "flp2 (1000 * 48000 div 48000) = 512"
    by (simp add: flp2_def Let_def)
  note T = flp2_quantum_size [of ?w 0 "''1000/48000''" env0 1000 48000 1000]
  have "quantum_size (nodes (check_properties env0 0 ?w) 0) = flp2 (1000 * 48000 div 48000)"
    by (rule T [THEN conjunct1, THEN mp]) (intro conjI a b c)
  then have q: "quantum_size (nodes (check_properties env0 0 ?w) 0) = 512"
    by (simp only: f)
  have r: "unat (flp2 1000) \<le> unat (1000 :: u32)"
    by (rule T [THEN conjunct2, THEN conjunct2, THEN conjunct2, THEN mp, OF d,
                THEN conjunct2, THEN conjunct1])
  show ?thesis
    by (intro conjI a b c d q r)
qed

section \<open>Starting a node\<close>

text \<open>
  Claim C6. \<open>start_node\<close> sends the \<open>Start\<close> command to the processor, and returns
  what the processor returned, when the node is below \<open>RUNNING\<close> and both pairs of
  link counters agree; when a pair differs it returns 0 and changes nothing, so no
  \<open>Start\<close> is sent; a node in state \<open>RUNNING\<close> or higher is left unchanged.
\<close>

theorem start_node_gate:
  "(pw_node_state_val (info_state (nodes s this)) < pw_node_state_val PW_NODE_STATE_RUNNING
      \<and> n_ready_output_links (nodes s this) = n_used_output_links (nodes s this)
      \<and> n_ready_input_links (nodes s this) = n_used_input_links (nodes s this)
    \<longrightarrow> fst (start_node env this s) = e_send_command env this SPA_NODE_COMMAND_Start
        \<and> trace (snd (start_node env this s)) =
            trace s @ EV_send_command this SPA_NODE_COMMAND_Start
              # (if e_send_command env this SPA_NODE_COMMAND_Start < 0
                 then [EV_log_error ''start node error''] else [])
        \<and> nodes (snd (start_node env this s)) = nodes s
        \<and> acts (snd (start_node env this s)) = acts s)
   \<and> (n_ready_output_links (nodes s this) \<noteq> n_used_output_links (nodes s this)
        \<or> n_ready_input_links (nodes s this) \<noteq> n_used_input_links (nodes s this)
    \<longrightarrow> start_node env this s = (0, s))
   \<and> (pw_node_state_val (info_state (nodes s this)) \<ge> pw_node_state_val PW_NODE_STATE_RUNNING
    \<longrightarrow> start_node env this s = (0, s))"
  by (simp add: start_node_def Let_def emit_def)

text \<open>An idle node with matching counters is started; with a link that is not ready it is not.\<close>

theorem start_node_gate_witness:
  "pw_node_state_val (info_state (nodes world_idle 0)) < pw_node_state_val PW_NODE_STATE_RUNNING
   \<and> n_ready_output_links (nodes world_idle 0) = n_used_output_links (nodes world_idle 0)
   \<and> n_ready_input_links (nodes world_idle 0) = n_used_input_links (nodes world_idle 0)
   \<and> fst (start_node env0 0 world_idle) = 0
   \<and> trace (snd (start_node env0 0 world_idle)) = [EV_send_command 0 SPA_NODE_COMMAND_Start]
   \<and> n_ready_input_links (nodes world_unready 0) \<noteq> n_used_input_links (nodes world_unready 0)
   \<and> start_node env0 0 world_unready = (0, world_unready)"
proof -
  have a: "pw_node_state_val (info_state (nodes world_idle 0)) < pw_node_state_val PW_NODE_STATE_RUNNING"
    by code_simp
  have b: "n_ready_output_links (nodes world_idle 0) = n_used_output_links (nodes world_idle 0)"
    by code_simp
  have c: "n_ready_input_links (nodes world_idle 0) = n_used_input_links (nodes world_idle 0)"
    by code_simp
  have t: "trace world_idle = []"
    by code_simp
  have e: "e_send_command env0 0 SPA_NODE_COMMAND_Start = 0"
    by (simp add: env0_def)
  have d: "n_ready_input_links (nodes world_unready 0) \<noteq> n_used_input_links (nodes world_unready 0)"
    by code_simp
  note T1 = start_node_gate [of world_idle 0 env0, THEN conjunct1, THEN mp, OF conjI [OF a conjI [OF b c]]]
  note T2 = start_node_gate [of world_unready 0 env0, THEN conjunct2, THEN conjunct1, THEN mp, OF disjI2 [OF d]]
  from T1 have r1: "fst (start_node env0 0 world_idle) = 0"
    by (simp only: e)
  from T1 have r2: "trace (snd (start_node env0 0 world_idle)) = [EV_send_command 0 SPA_NODE_COMMAND_Start]"
    by (simp add: e t)
  show ?thesis
    by (intro conjI a b c r1 r2 d T2)
qed

section \<open>Suspending a node\<close>

lemma suspend_ports_result:
  "suspend_ports env res ps = (res', ps', evs) \<Longrightarrow>
     (\<forall>p\<in>set ps'. port_state p = PW_PORT_STATE_CONFIGURE)
     \<and> length ps' = length ps
     \<and> (\<forall>p\<in>set ps. EV_port_set_param_Format_NULL (port_id p) \<in> set evs)"
proof (induction ps arbitrary: res res' ps' evs)
  case Nil
  then show ?case by simp
next
  case (Cons p ps)
  obtain r1 p1 e1 where sp: "suspend_port env p = (r1, p1, e1)"
    by (cases "suspend_port env p") auto
  obtain r2 ps2 e2 where rest: "suspend_ports env r1 ps = (r2, ps2, e2)"
    by (cases "suspend_ports env r1 ps") auto
  from Cons.prems sp rest have eq: "ps' = p1 # ps2" "evs = e1 @ e2"
    by simp_all
  from sp have p1: "port_state p1 = PW_PORT_STATE_CONFIGURE"
    and e1: "EV_port_set_param_Format_NULL (port_id p) \<in> set e1"
    by (auto simp add: suspend_port_def Let_def split: prod.splits)
  from Cons.IH [OF rest] p1 e1 eq show ?case
    by auto
qed

lemma list_remove_ports:
  "input_ports (nodes (list_remove r s) n) = input_ports (nodes s n)"
  "output_ports (nodes (list_remove r s) n) = output_ports (nodes s n)"
  "trace (list_remove r s) = trace s"
  by (simp_all add: list_remove_def)

lemma dec_required_ports:
  "nodes (dec_required a s) = nodes s"
  "trace (dec_required a s) = trace s"
  by (simp_all add: dec_required_def act_upd_def)

lemma remove_node_ports:
  "input_ports (nodes (remove_node this s) n) = input_ports (nodes s n)"
  "output_ports (nodes (remove_node this s) n) = output_ports (nodes s n)"
  by (simp_all add: remove_node_def Let_def list_remove_ports dec_required_ports)

lemma do_node_remove_ports:
  "input_ports (nodes (do_node_remove this s) n) = input_ports (nodes s n)"
  "output_ports (nodes (do_node_remove this s) n) = output_ports (nodes s n)"
  by (simp_all add: do_node_remove_def remove_node_ports node_upd_def)

lemma pause_node_ports:
  "input_ports (nodes (snd (pause_node env this s)) n) = input_ports (nodes s n)"
  "output_ports (nodes (snd (pause_node env this s)) n) = output_ports (nodes s n)"
  by (simp_all add: pause_node_def Let_def emit_def do_node_remove_ports node_deactivate_def)

lemma node_update_state_suspended:
  "info_state (nodes (node_update_state this PW_NODE_STATE_SUSPENDED err s) this) = PW_NODE_STATE_SUSPENDED"
  "input_ports (nodes (node_update_state this PW_NODE_STATE_SUSPENDED err s) this) = input_ports (nodes s this)"
  "output_ports (nodes (node_update_state this PW_NODE_STATE_SUSPENDED err s) this) = output_ports (nodes s this)"
  "\<exists>evs. trace (node_update_state this PW_NODE_STATE_SUSPENDED err s) = trace s @ evs"
  by (simp_all add: node_update_state_def Let_def emit_def node_upd_def)



section \<open>Buffers without a format\<close>

lemma port_use_buffers_no_format:
  "\<not> have_format p \<Longrightarrow> port_use_buffers cb d bufs p pt = Inr (- EIO, p, pt)"
  by (simp add: port_use_buffers_def)

text \<open>
  Claim C8. In the merger and in the splitter, \<open>use_buffers\<close> on a port that has no
  format returns \<open>-EIO\<close> and leaves the whole converter, the port and its buffers
  included, as it was, for every list of buffers.
\<close>

theorem use_buffers_without_format:
  "(merger_CHECK_PORT m d pid
      \<and> unat pid < length (if d = SPA_DIRECTION_INPUT then m_in_ports m else m_out_ports m)
      \<and> \<not> have_format (merger_GET_PORT m d pid)
    \<longrightarrow> merger_port_use_buffers m d pid flags bufs = Inr (- EIO, m))
   \<and> (splitter_CHECK_PORT sp d pid
      \<and> unat pid < length (if d = SPA_DIRECTION_INPUT then s_in_ports sp else s_out_ports sp)
      \<and> \<not> have_format (splitter_GET_PORT sp d pid)
    \<longrightarrow> splitter_port_use_buffers sp d pid flags bufs = Inr (- EIO, sp))"
proof (intro conjI impI)
  assume h: "merger_CHECK_PORT m d pid
      \<and> unat pid < length (if d = SPA_DIRECTION_INPUT then m_in_ports m else m_out_ports m)
      \<and> \<not> have_format (merger_GET_PORT m d pid)"
  then have "port_use_buffers True d bufs (merger_GET_PORT m d pid) (m_is_passthrough m)
      = Inr (- EIO, merger_GET_PORT m d pid, m_is_passthrough m)"
    by (simp add: port_use_buffers_no_format)
  with h show "merger_port_use_buffers m d pid flags bufs = Inr (- EIO, m)"
    by (simp add: merger_port_use_buffers_def merger_GET_PORT_def)
next
  assume h: "splitter_CHECK_PORT sp d pid
      \<and> unat pid < length (if d = SPA_DIRECTION_INPUT then s_in_ports sp else s_out_ports sp)
      \<and> \<not> have_format (splitter_GET_PORT sp d pid)"
  then have "port_use_buffers False d bufs (splitter_GET_PORT sp d pid) (s_is_passthrough sp)
      = Inr (- EIO, splitter_GET_PORT sp d pid, s_is_passthrough sp)"
    by (simp add: port_use_buffers_no_format)
  with h show "splitter_port_use_buffers sp d pid flags bufs = Inr (- EIO, sp)"
    by (simp add: splitter_port_use_buffers_def splitter_GET_PORT_def)
qed

text \<open>One buffer offered to input port 1 of a merger and to output port 1 of a splitter.\<close>

theorem use_buffers_without_format_witness:
  "merger_CHECK_PORT merger0 SPA_DIRECTION_INPUT 1
   \<and> unat (1 :: u32) < length (m_in_ports merger0)
   \<and> \<not> have_format (merger_GET_PORT merger0 SPA_DIRECTION_INPUT 1)
   \<and> merger_port_use_buffers merger0 SPA_DIRECTION_INPUT 1 0 [buffer0] = Inr (- 5, merger0)
   \<and> splitter_CHECK_PORT splitter0 SPA_DIRECTION_OUTPUT 1
   \<and> unat (1 :: u32) < length (s_out_ports splitter0)
   \<and> \<not> have_format (splitter_GET_PORT splitter0 SPA_DIRECTION_OUTPUT 1)
   \<and> splitter_port_use_buffers splitter0 SPA_DIRECTION_OUTPUT 1 0 [buffer0] = Inr (- 5, splitter0)"
proof -
  have a: "merger_CHECK_PORT merger0 SPA_DIRECTION_INPUT 1"
    by (simp add: merger_CHECK_PORT_def merger0_def)
  have b: "unat (1 :: u32) < length (m_in_ports merger0)"
    by (simp add: merger0_def)
  have c: "\<not> have_format (merger_GET_PORT merger0 SPA_DIRECTION_INPUT 1)"
    by (simp add: merger_GET_PORT_def merger0_def zero_port_def)
  have a': "splitter_CHECK_PORT splitter0 SPA_DIRECTION_OUTPUT 1"
    by (simp add: splitter_CHECK_PORT_def splitter0_def)
  have b': "unat (1 :: u32) < length (s_out_ports splitter0)"
    by (simp add: splitter0_def)
  have c': "\<not> have_format (splitter_GET_PORT splitter0 SPA_DIRECTION_OUTPUT 1)"
    by (simp add: splitter_GET_PORT_def splitter0_def zero_port_def)
  have r: "merger_port_use_buffers merger0 SPA_DIRECTION_INPUT 1 0 [buffer0] = Inr (- EIO, merger0)"
    using use_buffers_without_format [where m = merger0 and d = SPA_DIRECTION_INPUT and pid = 1
            and sp = splitter0 and flags = 0 and bufs = "[buffer0]"] a b c
    by simp
  have r': "splitter_port_use_buffers splitter0 SPA_DIRECTION_OUTPUT 1 0 [buffer0] = Inr (- EIO, splitter0)"
    using use_buffers_without_format [where m = merger0 and d = SPA_DIRECTION_OUTPUT and pid = 1
            and sp = splitter0 and flags = 0 and bufs = "[buffer0]"] a' b' c'
    by simp
  show ?thesis
    using a b c a' b' c' r r' by (simp add: EIO_def)
qed

section \<open>Commands at the start of a cycle\<close>

lemma sync_cycles_Inr:
  "clock_rate_denom (a_position a) \<noteq> 0 \<Longrightarrow>
   (clock_duration (a_position a) * SPA_NSEC_PER_SEC) div ucast (clock_rate_denom (a_position a)) \<noteq> 0 \<Longrightarrow>
   sync_cycles a = Inr (sync_timeout a div
     ((clock_duration (a_position a) * SPA_NSEC_PER_SEC) div ucast (clock_rate_denom (a_position a))))"
  by (simp add: sync_cycles_def Let_def)



section \<open>Attaching and detaching\<close>

lemma add_node_lists:
  "\<not> exported (nodes s this) \<Longrightarrow>
   rt_target_list (nodes (add_node this drv s) n) =
     rt_target_list (nodes s n)
       @ (if n = this then [RT_DRIVER_TARGET this] else [])
       @ (if n = drv then [RT_TARGET this] else [])"
  by (simp add: add_node_def Let_def node_upd_def list_append_def inc_required_def act_upd_def)

lemma add_node_required:
  "\<not> exported (nodes s this) \<Longrightarrow>
   required (state0 (acts (add_node this drv s) a)) =
     required (state0 (acts s a)) + (if a = drv then 1 else 0) + (if a = this then 1 else 0)"
  by (simp add: add_node_def Let_def node_upd_def list_append_def inc_required_def act_upd_def)

lemma add_node_driver_target:
  "\<not> exported (nodes s this) \<Longrightarrow>
   t_activation (rt_driver_target (nodes (add_node this drv s) this)) = drv"
  by (simp add: add_node_def Let_def node_upd_def list_append_def inc_required_def act_upd_def)

lemma add_node_exported:
  "exported (nodes (add_node this drv s) n) = exported (nodes s n)"
  by (simp add: add_node_def Let_def node_upd_def list_append_def inc_required_def act_upd_def)

lemma remove_node_lists:
  "\<not> exported (nodes s this) \<Longrightarrow>
   rt_target_list (nodes (remove_node this s) n) =
     remove1 (RT_TARGET this) (remove1 (RT_DRIVER_TARGET this) (rt_target_list (nodes s n)))"
  by (simp add: remove_node_def Let_def list_remove_def dec_required_def act_upd_def)

lemma remove_node_required:
  "\<not> exported (nodes s this) \<Longrightarrow>
   required (state0 (acts (remove_node this s) a)) =
     required (state0 (acts s a))
       - (if a = t_activation (rt_driver_target (nodes s this)) then 1 else 0)
       - (if a = this then 1 else 0)"
  by (simp add: remove_node_def Let_def list_remove_def dec_required_def act_upd_def)

lemma remove1_appended:
  "x \<notin> set xs \<Longrightarrow> y \<notin> set xs \<Longrightarrow> x \<noteq> y \<Longrightarrow>
   remove1 y (remove1 x (xs @ (if b then [x] else []) @ (if c then [y] else []))) = xs"
  by (induction xs) auto

text \<open>
  Claim C10, amended. For a node that is not exported and whose two targets are in
  no target list, \<open>add_node\<close> increments \<open>state[0].required\<close> of the driver's
  activation and of the node's own activation by one each when the node is not its
  own driver, and by two when it is, the two counters then being one;
  \<open>remove_node\<close> after it restores every \<open>required\<close> count and every target list.
  For an exported node both operations change nothing.
\<close>

theorem add_remove_node_roundtrip:
  "(\<not> exported (nodes s this)
      \<and> (\<forall>n. RT_TARGET this \<notin> set (rt_target_list (nodes s n)))
      \<and> (\<forall>n. RT_DRIVER_TARGET this \<notin> set (rt_target_list (nodes s n)))
    \<longrightarrow> (this \<noteq> drv \<longrightarrow>
            required (state0 (acts (add_node this drv s) drv)) = required (state0 (acts s drv)) + 1
          \<and> required (state0 (acts (add_node this drv s) this)) = required (state0 (acts s this)) + 1)
        \<and> (this = drv \<longrightarrow>
            required (state0 (acts (add_node this drv s) drv)) = required (state0 (acts s drv)) + 2)
        \<and> (\<forall>a. required (state0 (acts (remove_node this (add_node this drv s)) a))
                 = required (state0 (acts s a)))
        \<and> (\<forall>n. rt_target_list (nodes (remove_node this (add_node this drv s)) n)
                 = rt_target_list (nodes s n)))
   \<and> (exported (nodes s this)
    \<longrightarrow> add_node this drv s = s \<and> remove_node this s = s)"
proof (intro conjI impI allI)
  assume h: "\<not> exported (nodes s this)
      \<and> (\<forall>n. RT_TARGET this \<notin> set (rt_target_list (nodes s n)))
      \<and> (\<forall>n. RT_DRIVER_TARGET this \<notin> set (rt_target_list (nodes s n)))"
  then have ne: "\<not> exported (nodes s this)" by simp
  then have ne': "\<not> exported (nodes (add_node this drv s) this)"
    by (simp add: add_node_exported)
  {
    assume "this \<noteq> drv"
    then show "required (state0 (acts (add_node this drv s) drv)) = required (state0 (acts s drv)) + 1"
      and "required (state0 (acts (add_node this drv s) this)) = required (state0 (acts s this)) + 1"
      by (simp_all add: add_node_required [OF ne])
  }
  {
    assume td: "this = drv"
    have "required (state0 (acts (add_node this drv s) drv)) =
        required (state0 (acts s drv)) + (if drv = drv then 1 else 0) + (if drv = this then 1 else 0)"
      by (rule add_node_required [OF ne])
    then show "required (state0 (acts (add_node this drv s) drv)) = required (state0 (acts s drv)) + 2"
      using td by simp
  }
  {
    fix a
    show "required (state0 (acts (remove_node this (add_node this drv s)) a)) = required (state0 (acts s a))"
      by (simp add: remove_node_required [OF ne'] add_node_driver_target [OF ne] add_node_required [OF ne])
  }
  {
    fix n
    from h have "RT_DRIVER_TARGET this \<notin> set (rt_target_list (nodes s n))"
      and "RT_TARGET this \<notin> set (rt_target_list (nodes s n))"
      by simp_all
    then have "remove1 (RT_TARGET this) (remove1 (RT_DRIVER_TARGET this)
        (rt_target_list (nodes s n)
          @ (if n = this then [RT_DRIVER_TARGET this] else [])
          @ (if n = drv then [RT_TARGET this] else []))) = rt_target_list (nodes s n)"
      by (intro remove1_appended) simp_all
    then show "rt_target_list (nodes (remove_node this (add_node this drv s)) n) = rt_target_list (nodes s n)"
      by (simp only: remove_node_lists [OF ne'] add_node_lists [OF ne])
  }
next
  assume "exported (nodes s this)"
  then show "add_node this drv s = s" and "remove_node this s = s"
    by (simp_all add: add_node_def remove_node_def)
qed

text \<open>
  The claim as stated fails for a driver attached to itself, which is how every
  driver is attached: its counter goes up by two.
\<close>

theorem add_node_own_driver_counterexample:
  "\<not> exported (nodes world2 0)
   \<and> required (state0 (acts (add_node 0 0 world2) 0)) \<noteq> required (state0 (acts world2 0)) + 1"
  by code_simp

text \<open>Node 1 attached to driver 0 and detached again; driver 0 attached to itself.\<close>

theorem add_remove_node_roundtrip_witness:
  "\<not> exported (nodes world0 1)
   \<and> (\<forall>n. RT_TARGET 1 \<notin> set (rt_target_list (nodes world0 n)))
   \<and> (\<forall>n. RT_DRIVER_TARGET 1 \<notin> set (rt_target_list (nodes world0 n)))
   \<and> required (state0 (acts (add_node 1 0 world0) 0)) = 1
   \<and> required (state0 (acts (add_node 1 0 world0) 1)) = 1
   \<and> required (state0 (acts (add_node 0 0 world0) 0)) = 2
   \<and> required (state0 (acts (remove_node 1 (add_node 1 0 world0)) 0)) = 0
   \<and> rt_target_list (nodes (remove_node 1 (add_node 1 0 world0)) 0) = []"
proof -
  have e: "\<not> exported (nodes world0 n)" for n
    by (simp add: world0_def zero_node_def)
  have l: "rt_target_list (nodes world0 n) = []" for n
    by (simp add: world0_def zero_node_def)
  have r: "required (state0 (acts world0 n)) = 0" for n
    by (simp add: world0_def zero_activation_def)
  have h: "\<not> exported (nodes world0 k)
      \<and> (\<forall>n. RT_TARGET k \<notin> set (rt_target_list (nodes world0 n)))
      \<and> (\<forall>n. RT_DRIVER_TARGET k \<notin> set (rt_target_list (nodes world0 n)))" for k
    by (simp add: e l)
  note T0 = add_remove_node_roundtrip [of world0 0 0, THEN conjunct1, THEN mp, OF h]
  note T1 = add_remove_node_roundtrip [of world0 1 0, THEN conjunct1, THEN mp, OF h]
  from T0 have a: "required (state0 (acts (add_node 0 0 world0) 0)) = 2"
    by (simp add: r)
  from T1 have b: "required (state0 (acts (add_node 1 0 world0) 0)) = 1"
    "required (state0 (acts (add_node 1 0 world0) 1)) = 1"
    by (simp_all add: r)
  from T1 have c: "required (state0 (acts (remove_node 1 (add_node 1 0 world0)) 0)) = 0"
    by (simp add: r)
  from T1 have d: "rt_target_list (nodes (remove_node 1 (add_node 1 0 world0)) 0) = []"
    by (simp add: l)
  from h [of 1] a b c d show ?thesis
    by blast
qed

section \<open>What the steps of a cycle read and write\<close>

lemma act_upd_simps [simp]:
  "nodes (act_upd a f s) = nodes s"
  "links (act_upd a f s) = links s"
  "ticks (act_upd a f s) = ticks s"
  "trace (act_upd a f s) = trace s"
  "driver_list (act_upd a f s) = driver_list s"
  "acts (act_upd a f s) b = (if b = a then f (acts s a) else acts s b)"
  by (simp_all add: act_upd_def)

lemma emit_simps [simp]:
  "nodes (emit e s) = nodes s"
  "links (emit e s) = links s"
  "ticks (emit e s) = ticks s"
  "acts (emit e s) = acts s"
  "trace (emit e s) = trace s @ [e]"
  by (simp_all add: emit_def)

lemma process_mixes_simps [simp]:
  "nodes (process_mixes n ps s) = nodes s"
  "links (process_mixes n ps s) = links s"
  "ticks (process_mixes n ps s) = ticks s"
  "acts (process_mixes n ps s) = acts s"
  "trace (process_mixes n ps s) = trace s @ map (EV_process_mix n) ps"
  by (simp_all add: process_mixes_def)

lemma dump_states_simps [simp]:
  "nodes (dump_states n s) = nodes s"
  "links (dump_states n s) = links s"
  "ticks (dump_states n s) = ticks s"
  "acts (dump_states n s) = acts s"
  by (simp_all add: dump_states_def)

lemma clock_gettime_simps [simp]:
  "fst (clock_gettime env s) = e_clock env (ticks s)"
  "nodes (snd (clock_gettime env s)) = nodes s"
  "links (snd (clock_gettime env s)) = links s"
  "ticks (snd (clock_gettime env s)) = Suc (ticks s)"
  "acts (snd (clock_gettime env s)) = acts s"
  "trace (snd (clock_gettime env s)) = trace s"
  by (simp_all add: clock_gettime_def)

lemma process_node_run_simps:
  "fst (process_node_run env n s) = e_process env n (Suc (ticks s))"
  "nodes (snd (process_node_run env n s)) = nodes s"
  "links (snd (process_node_run env n s)) = links s"
  "ticks (snd (process_node_run env n s)) = Suc (ticks s)"
  "acts (snd (process_node_run env n s)) a =
     (if a = n
      then (acts s n)\<lparr>a_status := PW_NODE_ACTIVATION_AWAKE, awake_time := e_clock env (ticks s),
             pending_sync := False, pending_new_pos := False,
             state0 := (state0 (acts s n))\<lparr>st_status := e_process env n (Suc (ticks s))\<rparr>\<rparr>
      else acts s a)"
  by (simp_all add: process_node_run_def Let_def split_beta)

lemma process_node_run_trace:
  "trace (snd (process_node_run env n s)) =
     trace s @ map (EV_process_mix n) (rt_input_mix (nodes s n)) @ [EV_process n]
       @ (if e_process env n (Suc (ticks s)) AND SPA_STATUS_HAVE_DATA \<noteq> 0
          then map (EV_process_mix n) (rt_output_mix (nodes s n)) else [])"
  by (simp add: process_node_run_def Let_def split_beta)

lemma process_node_completed_simps:
  "nodes (process_node_completed env n s) = nodes s"
  "links (process_node_completed env n s) = links s"
  "ticks (process_node_completed env n s) = Suc (ticks s)"
  "trace (process_node_completed env n s) = trace s"
  "acts (process_node_completed env n s) a =
     (if a = n
      then (acts s n)\<lparr>a_status := PW_NODE_ACTIVATION_FINISHED,
             signal_time := finish_time (acts s n), finish_time := e_clock env (ticks s)\<rparr>
      else acts s a)"
  by (simp_all add: process_node_completed_def Let_def split_beta)

lemma resume_node_finish_simps:
  "fst (resume_node_finish env n s) = e_clock env (ticks s)"
  "nodes (snd (resume_node_finish env n s)) = nodes s"
  "links (snd (resume_node_finish env n s)) = links s"
  "ticks (snd (resume_node_finish env n s)) = Suc (ticks s)"
  "trace (snd (resume_node_finish env n s)) = trace s"
  "acts (snd (resume_node_finish env n s)) a =
     (if a = n
      then (acts s n)\<lparr>a_status := PW_NODE_ACTIVATION_FINISHED, finish_time := e_clock env (ticks s)\<rparr>
      else acts s a)"
  by (simp_all add: resume_node_finish_def Let_def split_beta)

lemma target_dec_trigger_simps:
  "fst (target_dec_trigger t nsec s) = (pending (state0 (acts s (t_activation t))) - 1 = 0)"
  "nodes (snd (target_dec_trigger t nsec s)) = nodes s"
  "links (snd (target_dec_trigger t nsec s)) = links s"
  "ticks (snd (target_dec_trigger t nsec s)) = ticks s"
  "trace (snd (target_dec_trigger t nsec s)) = trace s"
  "acts (snd (target_dec_trigger t nsec s)) a =
     (if a = t_activation t
      then (if pending (state0 (acts s a)) - 1 = 0
            then (acts s a)\<lparr>state0 := (state0 (acts s a))\<lparr>pending := 0\<rparr>,
                   a_status := PW_NODE_ACTIVATION_TRIGGERED, signal_time := nsec\<rparr>
            else (acts s a)\<lparr>state0 := (state0 (acts s a))\<lparr>pending := pending (state0 (acts s a)) - 1\<rparr>\<rparr>)
      else acts s a)"
  by (simp_all add: target_dec_trigger_def target_dec_def target_trigger_def
        pw_node_activation_state_dec_def Let_def split_beta)

lemma link_signal_func_simps:
  "nodes (link_signal_func env l s) = nodes s"
  "links (link_signal_func env l s) = links s"
  "ticks (link_signal_func env l s) = Suc (ticks s)"
  "trace (link_signal_func env l s) = trace s @ [EV_write_fd (link_signalfd (links s l))]"
  "acts (link_signal_func env l s) a =
     (if a = t_activation (link_target (links s l))
      then (acts s a)\<lparr>a_status := PW_NODE_ACTIVATION_TRIGGERED, signal_time := e_clock env (ticks s)\<rparr>
      else acts s a)"
  by (simp_all add: link_signal_func_def Let_def split_beta)

lemma target_of_nodes:
  "nodes s' = nodes s \<Longrightarrow> links s' = links s \<Longrightarrow> target_of s' r = target_of s r"
  by (cases r) simp_all

lemma cycle_frame_refl [simp]: "cycle_frame s s"
  by (simp add: cycle_frame_def)

lemma cycle_frame_trans: "cycle_frame s s1 \<Longrightarrow> cycle_frame s1 s2 \<Longrightarrow> cycle_frame s s2"
  by (simp add: cycle_frame_def)

lemma cycle_frame_steps:
  "cycle_frame s (snd (process_node_run env n s))"
  "cycle_frame s (process_node_completed env n s)"
  "cycle_frame s (snd (resume_node_finish env n s))"
  "cycle_frame s (snd (target_dec_trigger t nsec s))"
  "cycle_frame s (link_signal_func env l s)"
  by (simp_all add: cycle_frame_def act_static_def process_node_run_simps
        process_node_completed_simps resume_node_finish_simps target_dec_trigger_simps
        link_signal_func_simps)

lemma cycle_frame_run:
  "(\<forall>s'. process_node fuel env this s = Inr s' \<longrightarrow> cycle_frame s s')"
  "(\<forall>s'. resume_node fuel env this s = Inr s' \<longrightarrow> cycle_frame s s')"
  "(\<forall>s'. resume_targets fuel env nsec rs s = Inr s' \<longrightarrow> cycle_frame s s')"
proof (induction fuel env this s and fuel env this s and fuel env nsec rs s
       rule: process_node_resume_node_resume_targets.induct)
  case (1 env this s)
  show ?case by simp
next
  case (2 fuel env this s)
  obtain status s1 where r: "process_node_run env this s = (status, s1)"
    by (cases "process_node_run env this s") auto
  have f1: "cycle_frame s s1"
    using cycle_frame_steps(1) [of s env this] by (simp add: r)
  show ?case
  proof (intro allI impI)
    fix s' assume a: "process_node (Suc fuel) env this s = Inr s'"
    show "cycle_frame s s'"
    proof (cases "this = driver_node (nodes s1 this) \<and> \<not> exported (nodes s1 this)")
      case True
      with a r have "s' = process_node_completed env this s1" by simp
      with f1 cycle_frame_steps(2) [of s1 env this] show ?thesis
        by (auto intro: cycle_frame_trans)
    next
      case False
      note nd = this
      show ?thesis
      proof (cases "status = SPA_STATUS_OK")
        case True
        with a r nd have "s' = s1" by auto
        with f1 show ?thesis by simp
      next
        case False
        with a r nd have "resume_node fuel env this s1 = Inr s'" by auto
        moreover have "\<forall>s'. resume_node fuel env this s1 = Inr s' \<longrightarrow> cycle_frame s1 s'"
          using "2.IH" [OF r [symmetric] nd False] .
        ultimately have "cycle_frame s1 s'" by blast
        with f1 show ?thesis by (rule cycle_frame_trans)
      qed
    qed
  qed
next
  case (3 fuel env this s)
  obtain nsec s1 where r: "resume_node_finish env this s = (nsec, s1)"
    by (cases "resume_node_finish env this s") auto
  have f1: "cycle_frame s s1"
    using cycle_frame_steps(3) [of s env this] by (simp add: r)
  show ?case
  proof (intro allI impI)
    fix s' assume "resume_node fuel env this s = Inr s'"
    with r have "resume_targets fuel env nsec (rt_target_list (nodes s1 this)) s1 = Inr s'"
      by simp
    with "3.IH" [OF r [symmetric]] have "cycle_frame s1 s'" by blast
    with f1 show "cycle_frame s s'" by (rule cycle_frame_trans)
  qed
next
  case (4 fuel env nsec s)
  show ?case by simp
next
  case (5 fuel env nsec r rs s)
  obtain zero s1 where d: "target_dec_trigger (target_of s r) nsec s = (zero, s1)"
    by (cases "target_dec_trigger (target_of s r) nsec s") auto
  have f1: "cycle_frame s s1"
    using cycle_frame_steps(4) [of s "target_of s r" nsec] by (simp add: d)
  show ?case
  proof (intro allI impI)
    fix s' assume a: "resume_targets fuel env nsec (r # rs) s = Inr s'"
    show "cycle_frame s s'"
    proof (cases zero)
      case False
      with a d have "resume_targets fuel env nsec rs s1 = Inr s'" by simp
      with "5.IH"(3) [OF d [symmetric] False] have "cycle_frame s1 s'" by blast
      with f1 show ?thesis by (rule cycle_frame_trans)
    next
      case True
      show ?thesis
      proof (cases "t_signal (target_of s r)")
        case SIGNAL_process_node
        with a d True obtain s2 where
          p: "process_node fuel env (t_data (target_of s r)) s1 = Inr s2"
          and q: "resume_targets fuel env nsec rs s2 = Inr s'"
          by (auto split: sum.splits)
        from "5.IH"(1) [OF d [symmetric] True SIGNAL_process_node] p
        have f2: "cycle_frame s1 s2" by blast
        have "(case t_signal (target_of s r) of
                 SIGNAL_process_node \<Rightarrow> process_node fuel env (t_data (target_of s r)) s1
               | SIGNAL_link_signal_func \<Rightarrow> Inr (link_signal_func env (t_data (target_of s r)) s1))
              = Inr s2"
          using SIGNAL_process_node p by simp
        from "5.IH"(2) [OF d [symmetric] True this] q
        have "cycle_frame s2 s'" by blast
        with f1 f2 show ?thesis by (blast intro: cycle_frame_trans)
      next
        case SIGNAL_link_signal_func
        define s2 where "s2 = link_signal_func env (t_data (target_of s r)) s1"
        with a d True SIGNAL_link_signal_func
        have q: "resume_targets fuel env nsec rs s2 = Inr s'"
          by simp
        have f2: "cycle_frame s1 s2"
          unfolding s2_def by (rule cycle_frame_steps(5))
        have "(case t_signal (target_of s r) of
                 SIGNAL_process_node \<Rightarrow> process_node fuel env (t_data (target_of s r)) s1
               | SIGNAL_link_signal_func \<Rightarrow> Inr (link_signal_func env (t_data (target_of s r)) s1))
              = Inr s2"
          using SIGNAL_link_signal_func s2_def by simp
        from "5.IH"(2) [OF d [symmetric] True this] q
        have "cycle_frame s2 s'" by blast
        with f1 f2 show ?thesis by (blast intro: cycle_frame_trans)
      qed
    qed
  qed
qed

section \<open>The start handshake and its timeout\<close>

lemma check_properties_acts: "acts (check_properties env this s) = acts s"
  by (simp add: check_properties_def Let_def emit_def)

lemma pw_node_new_sync_timeout:
  "sync_timeout (acts (pw_node_new env this props s) this) = 5 * SPA_NSEC_PER_SEC"
  by (simp add: pw_node_new_def Let_def node_upd_def check_properties_acts)

lemma node_ready_target_check:
  "fst (snd (node_ready_target node ro oa ob False ts r (rn, ar, s)))
     = (ar \<and> \<not> pending_sync (acts s (t_activation (target_of s r))))"
  "nodes (snd (snd (node_ready_target node ro oa ob False ts r (rn, ar, s)))) = nodes s"
  "links (snd (snd (node_ready_target node ro oa ob False ts r (rn, ar, s)))) = links s"
  "pending_sync (acts (snd (snd (node_ready_target node ro oa ob False ts r (rn, ar, s)))) a)
     = pending_sync (acts s a)"
  by (simp_all add: node_ready_target_def Let_def split_beta set_seg0_def
        pw_node_activation_state_reset_def split: option.split)

lemma node_ready_loop_check:
  "foldl (\<lambda>acc r. node_ready_target node ro oa ob False ts r acc) (rn, ar, s) rs = (rn', ar', s')
   \<Longrightarrow> ar' = (ar \<and> (\<forall>r\<in>set rs. \<not> pending_sync (acts s (t_activation (target_of s r)))))
       \<and> nodes s' = nodes s \<and> links s' = links s
       \<and> (\<forall>a. pending_sync (acts s' a) = pending_sync (acts s a))"
proof (induction rs arbitrary: rn ar s)
  case Nil
  then show ?case by simp
next
  case (Cons r rs)
  obtain rn1 ar1 s1 where st: "node_ready_target node ro oa ob False ts r (rn, ar, s) = (rn1, ar1, s1)"
    by (cases "node_ready_target node ro oa ob False ts r (rn, ar, s)") auto
  have C: "ar1 = (ar \<and> \<not> pending_sync (acts s (t_activation (target_of s r))))"
    "nodes s1 = nodes s" "links s1 = links s"
    "\<And>a. pending_sync (acts s1 a) = pending_sync (acts s a)"
    using node_ready_target_check [of node ro oa ob ts r rn ar s] by (simp_all add: st)
  from Cons.prems st
  have "foldl (\<lambda>acc r. node_ready_target node ro oa ob False ts r acc) (rn1, ar1, s1) rs = (rn', ar', s')"
    by simp
  from Cons.IH [OF this] C show ?case
    by (auto simp add: target_of_nodes [OF C(2) C(3)])
qed

lemma update_position_not_ready:
  assumes "pos_state (a_position (acts s node)) = SPA_IO_POSITION_STATE_STARTING"
  shows "update_position node False s =
     (if sync_left (acts s node) - 1 = 0
      then act_upd node (set_pos_state SPA_IO_POSITION_STATE_RUNNING)
             (dump_states node (emit (EV_log_warn ''sync timeout, going to RUNNING'')
                (act_upd node (\<lambda>a. a\<lparr>sync_left := sync_left a - 1\<rparr>) s)))
      else act_upd node (\<lambda>a. a\<lparr>a_position := (a_position a)\<lparr>pos_offset :=
                pos_offset (a_position a) + clock_duration (a_position a)\<rparr>\<rparr>)
             (act_upd node (\<lambda>a. a\<lparr>sync_left := sync_left a - 1\<rparr>) s))"
  using assms by (simp add: update_position_def Let_def set_pos_state_def)

lemma update_position_ready:
  assumes "pos_state (a_position (acts s node)) = SPA_IO_POSITION_STATE_STARTING"
  shows "update_position node True s = act_upd node (set_pos_state SPA_IO_POSITION_STATE_RUNNING) s"
  using assms by (simp add: update_position_def Let_def set_pos_state_def)

lemma dump_states_trace:
  "trace (dump_states drv s) =
     trace s @ concat (map (\<lambda>r. case t_node (target_of s r) of
                                     None \<Rightarrow> []
                                   | Some n \<Rightarrow>
                                       [EV_dump_state n
                                          (pending (state0 (acts s (t_activation (target_of s r)))))
                                          (required (state0 (acts s (t_activation (target_of s r)))))])
                          (rt_target_list (nodes s drv)))"
  by (simp add: dump_states_def Let_def)

lemma dump_states_sync_left:
  "trace (dump_states drv (emit e (act_upd node (\<lambda>a. a\<lparr>sync_left := sync_left a - 1\<rparr>) s)))
     = trace s @ e # concat (map (\<lambda>r. case t_node (target_of s r) of
                                     None \<Rightarrow> []
                                   | Some n \<Rightarrow>
                                       [EV_dump_state n
                                          (pending (state0 (acts s (t_activation (target_of s r)))))
                                          (required (state0 (acts s (t_activation (target_of s r)))))])
                          (rt_target_list (nodes s drv)))"
proof -
  let ?s1 = "emit e (act_upd node (\<lambda>a. a\<lparr>sync_left := sync_left a - 1\<rparr>) s)"
  have t: "target_of ?s1 r = target_of s r" for r
    by (rule target_of_nodes) simp_all
  have p: "pending (state0 (acts ?s1 a)) = pending (state0 (acts s a))"
    "required (state0 (acts ?s1 a)) = required (state0 (acts s a))" for a
    by simp_all
  show ?thesis
    by (simp only: dump_states_trace t p) simp
qed



section \<open>Who triggers a node\<close>

lemma word_dec_zero: "(x - 1 = 0) \<longleftrightarrow> (x = (1 :: u32))"
  by auto

lemma unat_minus_1_u32: "unat (- 1 :: u32) = 4294967295"
  by (simp add: unsigned_minus_1_eq_mask mask_eq_exp_minus_1)

lemma unat_dec:
  fixes x :: u32
  shows "unat (x - 1) = (if x = 0 then 2 ^ 32 - 1 else unat x - 1)"
proof (cases "x = 0")
  case True
  then show ?thesis by (simp add: unsigned_minus_1_eq_mask mask_eq_exp_minus_1)
next
  case False
  then show ?thesis by (simp add: unat_minus_one)
qed

lemma target_dec_trigger_pending:
  "pending (state0 (acts (snd (target_dec_trigger t nsec s)) (t_activation t)))
     = pending (state0 (acts s (t_activation t))) - 1"
  by (simp add: target_dec_trigger_simps)

lemma predecessors_dec_signal:
  "length ps < 2 ^ 32 \<Longrightarrow>
   fst (predecessors_dec t ps s) =
     (if 1 \<le> unat (pending (state0 (acts s (t_activation t))))
         \<and> unat (pending (state0 (acts s (t_activation t)))) \<le> length ps
      then [fst (ps ! (unat (pending (state0 (acts s (t_activation t)))) - 1))]
      else [])"
proof (induction ps arbitrary: s)
  case Nil
  then show ?case by simp
next
  case (Cons pn ps)
  obtain p nsec where pn: "pn = (p, nsec)" by (cases pn)
  define x where "x = pending (state0 (acts s (t_activation t)))"
  define s1 where "s1 = snd (target_dec_trigger t nsec s)"
  have z: "fst (target_dec_trigger t nsec s) = (x = 1)"
    by (simp add: target_dec_trigger_simps x_def word_dec_zero)
  have x1: "pending (state0 (acts s1 (t_activation t))) = x - 1"
    by (simp add: s1_def x_def target_dec_trigger_pending)
  have len: "length ps < 2 ^ 32" "length ps < 2 ^ 32 - 1"
    using Cons.prems by simp_all
  have ih: "fst (predecessors_dec t ps s1) =
     (if 1 \<le> unat (x - 1) \<and> unat (x - 1) \<le> length ps
      then [fst (ps ! (unat (x - 1) - 1))] else [])"
    using Cons.IH [OF len(1), of s1] by (simp add: x1)
  have step: "fst (predecessors_dec t (pn # ps) s) =
      (if x = 1 then [p] else []) @ fst (predecessors_dec t ps s1)"
    using z by (simp add: pn s1_def split_beta)
  consider (zero) "x = 0" | (one) "x = 1" | (more) "2 \<le> unat x"
  proof -
    have "unat x = 0 \<or> unat x = 1 \<or> 2 \<le> unat x" by arith
    moreover have "unat x = 0 \<longleftrightarrow> x = 0" by (simp add: unsigned_eq_0_iff)
    moreover have "unat x = 1 \<longleftrightarrow> x = 1" by (simp add: word_unat_eq_iff)
    ultimately show ?thesis
      using that by blast
  qed
  then show ?case
  proof cases
    case zero
    then show ?thesis
      using len by (simp add: step ih x_def [symmetric] unat_minus_1_u32)
  next
    case one
    have "fst pn = p" by (simp add: pn)
    with one show ?thesis
      by (simp add: step ih x_def [symmetric])
  next
    case more
    then have nz: "x \<noteq> 0" "x \<noteq> 1" by auto
    from more have "unat x - 1 - 1 = unat x - 2" "unat x - Suc 0 \<noteq> 0" by simp_all
    with more nz show ?thesis
      by (auto simp add: step ih x_def [symmetric] unat_dec nth_Cons')
  qed
qed




end
